theory Spec2Isabelle
  imports Complex_Main "HOL-Library.Sublist"
begin

section \<open>The position logger of lcnc\_logger.py\<close>

text \<open>
  The development embeds the methods \<open>check_lineEdit\<close>, \<open>check_feed_arc_radius\<close>,
  \<open>openFile\<close>, \<open>save\<close>, \<open>log\<close> and \<open>update\<close> of the class \<open>MainWindow\<close>.
  The widgets a method reads or writes are fields of one record; a Python exception and a
  message box are values. Python's floats are read as real numbers throughout: a
  comparison, a sum or a square root is the exact one.
\<close>

subsection \<open>Python values\<close>

datatype py_exception =
  IndexError | ValueError | AttributeError | UnboundLocalError | OverflowError

text \<open>
  \<open>xs[i]\<close> on a list or a tuple: an index from \<open>-len(xs)\<close> up to \<open>-1\<close> counts from
  the end, an index outside \<open>-len(xs) .. len(xs) - 1\<close> raises IndexError.
\<close>

definition py_get :: "'a list \<Rightarrow> int \<Rightarrow> py_exception + 'a" where
  "py_get xs i =
     (if 0 \<le> i \<and> i < int (length xs) then Inr (xs ! nat i)
      else if - int (length xs) \<le> i \<and> i < 0 then Inr (xs ! nat (int (length xs) + i))
      else Inl IndexError)"

text \<open>\<open>needle in hay\<close> on strings.\<close>

fun py_in :: "string \<Rightarrow> string \<Rightarrow> bool" where
  "py_in needle [] = (needle = [])"
| "py_in needle (c # cs) = (prefix needle (c # cs) \<or> py_in needle cs)"

text \<open>\<open>str(n)\<close> of an integer.\<close>

fun str_nat :: "nat \<Rightarrow> string" where
  "str_nat n =
     (if n < 10 then [''0123456789'' ! n]
      else str_nat (n div 10) @ [''0123456789'' ! (n mod 10)])"

declare str_nat.simps [simp del]

definition str_int :: "int \<Rightarrow> string" where
  "str_int i = (if i < 0 then CHR ''-'' # str_nat (nat (- i)) else str_nat (nat i))"

text \<open>
  A float is kept as the real number that is its value, and floats are compared as their
  values are. What the Python library computes on floats stays a parameter of the model,
  of which nothing is assumed:
  \<^item> \<open>float(s)\<close> on a string (\<open>None\<close> where Python raises ValueError) and the rendering
    \<open>'{0:.{1}f}'.format(x, p)\<close> of a float with \<open>p\<close> decimals;
  \<^item> the arithmetic \<open>x - y\<close>, \<open>x + y\<close>, \<open>x * y\<close> and \<open>x / y\<close>, which rounds its result, and
    \<open>x ** y\<close>, which rounds it or raises OverflowError;
  \<^item> \<open>math.sqrt\<close>, \<open>math.cos\<close> and \<open>math.sin\<close>, which return a float or raise ValueError,
    \<open>math.atan2\<close> and \<open>math.pi\<close>.
\<close>

record pylib =
  py_float :: "string \<Rightarrow> real option"
  format_f :: "int \<Rightarrow> real \<Rightarrow> string"
  f_sub :: "real \<Rightarrow> real \<Rightarrow> real"
  f_add :: "real \<Rightarrow> real \<Rightarrow> real"
  f_mul :: "real \<Rightarrow> real \<Rightarrow> real"
  f_div :: "real \<Rightarrow> real \<Rightarrow> real"
  f_pow :: "real \<Rightarrow> real \<Rightarrow> py_exception + real"
  m_sqrt :: "real \<Rightarrow> py_exception + real"
  m_cos :: "real \<Rightarrow> py_exception + real"
  m_sin :: "real \<Rightarrow> py_exception + real"
  m_atan2 :: "real \<Rightarrow> real \<Rightarrow> real"
  m_pi :: real

subsection \<open>Messages shown by \<open>mbox\<close>\<close>

text \<open>
  One constructor for each critical message of \<open>log\<close>, named after the error it reports:
  \<^item> \<open>MissingFeedRate m\<close>: 'A feed rate must be entered for a m move';
  \<^item> \<open>MissingArcRadius m\<close>: 'm moves require an arc radius';
  \<^item> \<open>NoPriorPosition m\<close>: 'A G0 or G1 move must be done before a m move';
  \<^item> \<open>DegenerateMove m\<close>: 'm move needs a different end point';
  \<^item> \<open>RadiusTooSmall r\<close>: 'Radius can not be smaller than r' (the text shows \<open>r\<close> with
    four decimals).
\<close>

datatype message =
    MissingFeedRate string
  | MissingArcRadius string
  | NoPriorPosition string
  | DegenerateMove string
  | RadiusTooSmall real

subsection \<open>The arc centre (lines 689 to 718 of \<open>log\<close>)\<close>

text \<open>
  A step of \<open>log\<close> ends in a value, in a message box followed by \<open>return\<close>, or in an
  exception.
\<close>

datatype 'a result = Ok 'a | Abort message | Raise py_exception

text \<open>An operation of the library that raises ends the step in its exception.\<close>

definition raising :: "py_exception + 'a \<Rightarrow> ('a \<Rightarrow> 'b result) \<Rightarrow> 'b result" where
  "raising r k = (case r of Inl e \<Rightarrow> Raise e | Inr x \<Rightarrow> k x)"

text \<open>
  \<open>lastPos\<close> holds \<open>lastPosition[0]\<close> and \<open>lastPosition[1]\<close>, \<open>curPos\<close> holds
  \<open>currentPosition[0]\<close> and \<open>currentPosition[1]\<close>, and \<open>radiusLE\<close> is the value of
  \<open>float(self.arcRadiusLE.text())\<close>, \<open>None\<close> where it raises ValueError; the source
  evaluates it after the distance. Every operation on floats is that of the library, in
  the order of the source. The result is the pair \<open>(i, j)\<close> that the branch of the move
  type renders; \<open>None\<close> stands for a move type that is neither G2 nor G3, where nothing is
  rendered.
\<close>

definition arc_center ::
  "pylib \<Rightarrow> string \<Rightarrow> real \<times> real \<Rightarrow> real \<times> real \<Rightarrow> real option
   \<Rightarrow> (real \<times> real) option result" where
  "arc_center lib moveType lastPos curPos radiusLE =
     (let dx = f_sub lib (fst curPos) (fst lastPos);
          dy = f_sub lib (snd curPos) (snd lastPos)
      in if dx = 0 \<and> dy = 0 then Abort (DegenerateMove moveType)
         else
           let angle = m_atan2 lib dy dx;
               dxMid = f_div lib dx 2;
               dyMid = f_div lib dy 2
           in raising (f_pow lib dx 2) (\<lambda>dx2.
              raising (f_pow lib dy 2) (\<lambda>dy2.
              raising (m_sqrt lib (f_add lib dx2 dy2)) (\<lambda>distance.
                case radiusLE of
                  None \<Rightarrow> Raise ValueError
                | Some radius \<Rightarrow>
                    if radius < f_div lib distance 2
                    then Abort (RadiusTooSmall (f_div lib distance 2))
                    else
                      raising (f_pow lib radius 2) (\<lambda>r2.
                      raising (f_pow lib (f_div lib distance 2) 2) (\<lambda>h2.
                      raising (m_sqrt lib (f_sub lib r2 h2)) (\<lambda>center_offset.
                        if moveType = ''G2'' then
                          (let offset_angle = f_sub lib angle (f_div lib (m_pi lib) 2)
                           in raising (m_cos lib offset_angle) (\<lambda>c.
                              raising (m_sin lib offset_angle) (\<lambda>s.
                                Ok (Some (f_add lib dxMid (f_mul lib center_offset c),
                                          f_add lib dyMid (f_mul lib center_offset s))))))
                        else if moveType = ''G3'' then
                          (let offset_angle = f_add lib angle (f_div lib (m_pi lib) 2)
                           in raising (m_cos lib offset_angle) (\<lambda>c.
                              raising (m_sin lib offset_angle) (\<lambda>s.
                                Ok (Some (f_add lib dxMid (f_mul lib center_offset c),
                                          f_add lib dyMid (f_mul lib center_offset s))))))
                        else Ok None)))))))"

subsection \<open>The edge detectors of \<open>update\<close>\<close>

text \<open>
  The decision of one digital channel (lines 755 to 766 for the input, 768 to 779 for the
  output, the same text on other widgets): from the combo box's data, the sampled value,
  the check box and the latch, whether \<open>log\<close> is called and the latch afterwards.
\<close>

definition digital_edge :: "string \<Rightarrow> bool \<Rightarrow> bool \<Rightarrow> bool \<Rightarrow> bool \<times> bool" where
  "digital_edge logic val enabled latch =
     (if logic = ''true'' then
        (if val \<and> enabled \<and> \<not> latch then (True, True)
         else if \<not> val \<and> latch then (False, False)
         else (False, latch))
      else
        (if \<not> val \<and> enabled \<and> \<not> latch then (True, True)
         else if val \<and> latch then (False, False)
         else (False, latch)))"

text \<open>
  The decision of one analog channel (lines 781 to 799 for the input, 801 to 819 for the
  output): whether \<open>log\<close> is called, the latch afterwards, and the style sheet given to
  the two threshold boxes.
\<close>

definition analog_edge ::
  "string \<Rightarrow> real \<Rightarrow> real \<Rightarrow> real \<Rightarrow> bool \<Rightarrow> bool \<Rightarrow> bool \<times> bool \<times> string" where
  "analog_edge onLogic onValue offValue val enabled latch =
     (if onLogic = ''>'' \<and> onValue > offValue then
        (if val > onValue \<and> enabled \<and> \<not> latch then (True, True, ''background: white;'')
         else if val < offValue \<and> latch then (False, False, ''background: white;'')
         else (False, latch, ''background: white;''))
      else if onLogic = ''<'' \<and> onValue < offValue then
        (if val < onValue \<and> enabled \<and> \<not> latch then (True, True, ''background: white;'')
         else if val > offValue \<and> latch then (False, False, ''background: white;'')
         else (False, latch, ''background: white;''))
      else (False, latch, ''background: yellow;''))"

text \<open>
  The decisions of an analog channel over a sequence of samples, one per tick, in a run
  in which every call of \<open>log\<close> returns: the latch is then assigned on the tick that calls
  \<open>log\<close> and carried to the next tick. (An exception of \<open>log\<close> leaves \<open>update\<close> before the
  assignment; the runs of \<open>update\<close> itself are \<open>ticks\<close> below.)
\<close>

fun analog_run ::
  "string \<Rightarrow> real \<Rightarrow> real \<Rightarrow> bool \<Rightarrow> bool \<Rightarrow> real list \<Rightarrow> (bool \<times> bool \<times> string) list" where
  "analog_run onLogic onValue offValue enabled latch [] = []"
| "analog_run onLogic onValue offValue enabled latch (v # vs) =
     (case analog_edge onLogic onValue offValue v enabled latch of
        (fire, latch', style) \<Rightarrow>
          (fire, latch', style) # analog_run onLogic onValue offValue enabled latch' vs)"


subsection \<open>The window\<close>

text \<open>
  The radio buttons of \<open>moveTypeGB\<close>. The group is exclusive: at most one button is
  checked.
\<close>

datatype radio = g0RB | g1RB | g2RB | g3RB

text \<open>
  Modelled from the spec: the file lcnc\_logger.ui, which gives each radio button its
  property \<open>gcode\<close>, is missing. The move types are Rapid, Linear, ArcCW and ArcCCW, and
  \<open>log\<close> compares the property with 'G1', 'G2' and 'G3'.
\<close>

fun gcode_property :: "radio \<Rightarrow> string" where
  "gcode_property g0RB = ''G0''"
| "gcode_property g1RB = ''G1''"
| "gcode_property g2RB = ''G2''"
| "gcode_property g3RB = ''G3''"

text \<open>
  The fields are the attributes and widgets of \<open>MainWindow\<close> that the embedded methods use,
  under their names: a check box is its \<open>isChecked()\<close>, a line edit its \<open>text()\<close>, a spin
  box its \<open>value()\<close>, a combo box its \<open>currentData()\<close>, a list widget the texts of its
  items, \<open>w_styleSheet\<close> the style sheet of the widget \<open>w\<close>. An entry of \<open>axis_cbs\<close> or
  \<open>position_lbs\<close> is \<open>None\<close> where the list holds \<open>None\<close>. \<open>shown\<close> collects the critical
  messages that \<open>mbox\<close> has displayed.
\<close>

record window =
  axis_cbs :: "bool option list"
  position_lbs :: "string option list"
  axes :: "nat list"
  positionCB :: string
  precisionSB :: int
  moveTypeEnableCB :: bool
  moveTypeGB :: "radio option"
  feedLE :: string
  feedLE_styleSheet :: string
  arcRadiusLE :: string
  arcRadiusLE_styleSheet :: string
  logCommentLE :: string
  screenShotEnableCB :: bool
  imgFileName2CmntCB :: bool
  imgFileNameLE :: string
  imgFileIndexSB :: int
  autoIncrementCB :: bool
  lastPosition :: "real list"
  logToLine :: "int option"
  gcodeLW :: "string list"
  prescriptLW :: "string list"
  postscriptLW :: "string list"
  prescriptCB :: bool
  postscriptCB :: bool
  dinLogic :: string
  dinCB :: bool
  dinInput :: int
  dinLog :: bool
  doutLogic :: string
  doutCB :: bool
  doutInput :: int
  doutLog :: bool
  ainOnLogic :: string
  ainOnValue :: real
  ainOffValue :: real
  ainCB :: bool
  ainInput :: int
  ainLog :: bool
  ainOnValue_styleSheet :: string
  ainOffValue_styleSheet :: string
  aoutOnLogic :: string
  aoutOnValue :: real
  aoutOffValue :: real
  aoutCB :: bool
  aoutInput :: int
  aoutLog :: bool
  aoutOnValue_styleSheet :: string
  aoutOffValue_styleSheet :: string
  shown :: "message list"

text \<open>
  The status channel \<open>self.s\<close> after \<open>poll()\<close>. The position and the offsets are tuples;
  the four signal arrays are read at the index of a spin box only and are functions of
  that index.
\<close>

record stat =
  actual_position :: "real list"
  g5x_offset :: "real list"
  g92_offset :: "real list"
  tool_offset :: "real list"
  din :: "int \<Rightarrow> bool"
  dout :: "int \<Rightarrow> bool"
  ain :: "int \<Rightarrow> real"
  aout :: "int \<Rightarrow> real"

subsection \<open>\<open>check_lineEdit\<close> and \<open>check_feed_arc_radius\<close>\<close>

text \<open>
  The style sheet that \<open>check_lineEdit\<close> gives a line edit with the text \<open>text\<close>. In the
  first test the source writes \<open>float(lineEdit.text() == 0)\<close>: the comparison of a string
  with the integer 0 is \<open>False\<close>, and \<open>float(False)\<close> is \<open>0.0\<close>.
\<close>

definition float_of_bool :: "bool \<Rightarrow> real" where
  "float_of_bool b = (if b then 1 else 0)"

definition check_lineEdit :: "pylib \<Rightarrow> string \<Rightarrow> string" where
  "check_lineEdit lib text =
     (if text = [] \<or> float_of_bool False \<noteq> 0 then ''background: yellow;''
      else case py_float lib text of
             None \<Rightarrow> ''background: red;''
           | Some x \<Rightarrow> if x < 0 then ''background: red;'' else ''background: white;'')"

definition check_feed_arc_radius :: "pylib \<Rightarrow> window \<Rightarrow> window" where
  "check_feed_arc_radius lib st =
     st\<lparr>feedLE_styleSheet :=
          (if moveTypeGB st = Some g1RB \<or> moveTypeGB st = Some g2RB \<or> moveTypeGB st = Some g3RB
           then check_lineEdit lib (feedLE st) else ''background: white;''),
        arcRadiusLE_styleSheet :=
          (if moveTypeGB st = Some g2RB \<or> moveTypeGB st = Some g3RB
           then check_lineEdit lib (arcRadiusLE st) else ''background: white;'')\<rparr>"

subsection \<open>\<open>save\<close> and \<open>openFile\<close>\<close>

abbreviation nl :: char where "nl \<equiv> CHR 0x0A"
abbreviation cr :: char where "cr \<equiv> CHR 0x0D"

text \<open>\<open>'\n'.join(lines)\<close>.\<close>

fun join_nl :: "string list \<Rightarrow> string" where
  "join_nl [] = []"
| "join_nl [l] = l"
| "join_nl (l # m # ls) = l @ nl # join_nl (m # ls)"

text \<open>The text that \<open>save\<close> writes to the file.\<close>

definition save :: "window \<Rightarrow> string" where
  "save st =
     (let prescript = join_nl (prescriptLW st);
          gcode = join_nl (gcodeLW st);
          postscript = join_nl (postscriptLW st)
      in (if prescriptCB st
          then '';prescript_start'' @ [nl] @ prescript @ [nl] @ '';prescript_end'' @ [nl]
          else [])
         @ gcode
         @ (if postscriptCB st
            then [nl] @ '';postscript_start'' @ [nl] @ postscript @ [nl] @ '';postscript_end'' @ [nl]
            else []))"

text \<open>
  Reading a file opened in text mode: a carriage return, alone or before a line feed,
  is read as a line feed, and the iteration yields each line with the line feed that ends
  it.
\<close>

fun universal_newlines :: "string \<Rightarrow> string" where
  "universal_newlines [] = []"
| "universal_newlines (c # cs) =
     (if c = cr then
        (case cs of
           [] \<Rightarrow> [nl]
         | d # ds \<Rightarrow> if d = nl then nl # universal_newlines ds else nl # universal_newlines cs)
      else c # universal_newlines cs)"

fun file_lines :: "string \<Rightarrow> string list" where
  "file_lines [] = []"
| "file_lines (c # cs) =
     (if c = nl then [nl] # file_lines cs
      else case file_lines cs of
             [] \<Rightarrow> [[c]]
           | l # ls \<Rightarrow> (c # l) # ls)"

text \<open>\<open>line.strip('\n')\<close>.\<close>

definition strip_nl :: "string \<Rightarrow> string" where
  "strip_nl line = rev (dropWhile (\<lambda>c. c = nl) (rev (dropWhile (\<lambda>c. c = nl) line)))"

text \<open>One round of the loop of \<open>openFile\<close> (lines 586 to 603), on \<open>gcode_type\<close> and the window.\<close>

definition open_line :: "string \<times> window \<Rightarrow> string \<Rightarrow> string \<times> window" where
  "open_line acc line0 =
     (let gcode_type = fst acc; st = snd acc; line = strip_nl line0
      in if line = '';prescript_start'' then (''prescript'', st)
         else if line = '';prescript_end'' then (''log'', st)
         else if line = '';postscript_start'' then (''postscript'', st)
         else if line = '';postscript_end'' then (''log'', st)
         else if gcode_type = ''prescript'' then
           (gcode_type, if prescriptCB st then st\<lparr>prescriptLW := prescriptLW st @ [line]\<rparr> else st)
         else if gcode_type = ''log'' then
           (gcode_type, st\<lparr>gcodeLW := gcodeLW st @ [line]\<rparr>)
         else if gcode_type = ''postscript'' then
           (gcode_type, if postscriptCB st then st\<lparr>postscriptLW := postscriptLW st @ [line]\<rparr> else st)
         else (gcode_type, st))"

text \<open>
  \<open>openFile\<close> once the dialog has returned a file, on the content of that file (lines 579
  to 603).
\<close>

definition openFile :: "window \<Rightarrow> string \<Rightarrow> window" where
  "openFile st content =
     (let st1 = st\<lparr>gcodeLW := []\<rparr>;
          st2 = (if prescriptCB st1 then st1\<lparr>prescriptLW := []\<rparr> else st1);
          st3 = (if postscriptCB st2 then st2\<lparr>postscriptLW := []\<rparr> else st2)
      in snd (foldl open_line (''log'', st3) (file_lines (universal_newlines content))))"


subsection \<open>\<open>log\<close>\<close>

text \<open>
  Lines 655 to 661. \<open>logComment\<close> is the comment of the entry. \<open>snipFull\<close> grabs the
  screen and hands the image to \<open>onSnippingCompleted\<close>, which writes it to a file and, of
  the fields of the window, changes the index of the image only (within the range of the
  spin box).
\<close>

definition imgName :: "window \<Rightarrow> string" where
  "imgName st = imgFileNameLE st @ ''_'' @ str_int (imgFileIndexSB st) @ ''.png''"

definition logComment :: "window \<Rightarrow> string" where
  "logComment st =
     (if screenShotEnableCB st \<and> imgFileName2CmntCB st
      then logCommentLE st @ '' '' @ imgName st
      else logCommentLE st)"

definition snipFull :: "window \<Rightarrow> window" where
  "snipFull st =
     (if autoIncrementCB st then st\<lparr>imgFileIndexSB := imgFileIndexSB st + 1\<rparr> else st)"

text \<open>Lines 662 to 665: the indices of the axes whose check box exists and is checked.\<close>

definition checked_axes :: "window \<Rightarrow> nat list" where
  "checked_axes st = filter (\<lambda>cb. axis_cbs st ! cb = Some True) [0..<length (axis_cbs st)]"

definition axes_letters :: "string list" where
  "axes_letters = [''X'', ''Y'', ''Z'', ''A'', ''B'', ''C'', ''U'', ''V'', ''W'']"

text \<open>
  The loop over the checked axes (lines 673 to 676 with move types, 722 to 725 without):
  the text of the label, its value as a float, and the token appended to \<open>gcode\<close>. The
  result is the list of tokens and \<open>currentPosition\<close>.
\<close>

definition move_token :: "nat \<Rightarrow> string \<Rightarrow> py_exception + string" where
  "move_token axis position =
     (case py_get axes_letters (int axis) of
        Inl e \<Rightarrow> Inl e
      | Inr letter \<Rightarrow> Inr (letter @ position @ '' ''))"

definition simple_token :: "nat \<Rightarrow> string \<Rightarrow> py_exception + string" where
  "simple_token axis position = Inr (position @ '', '')"

fun read_axes ::
  "pylib \<Rightarrow> (nat \<Rightarrow> string \<Rightarrow> py_exception + string) \<Rightarrow> string option list \<Rightarrow> nat list
   \<Rightarrow> py_exception + string list \<times> real list" where
  "read_axes lib token lbs [] = Inr ([], [])"
| "read_axes lib token lbs (axis # rest) =
     (case py_get lbs (int axis) of
        Inl e \<Rightarrow> Inl e
      | Inr None \<Rightarrow> Inl AttributeError
      | Inr (Some position) \<Rightarrow>
          (case py_float lib position of
             None \<Rightarrow> Inl ValueError
           | Some x \<Rightarrow>
               (case token axis position of
                  Inl e \<Rightarrow> Inl e
                | Inr t \<Rightarrow>
                    (case read_axes lib token lbs rest of
                       Inl e \<Rightarrow> Inl e
                     | Inr (ts, xs) \<Rightarrow> Inr (t # ts, x # xs)))))"

text \<open>
  Lines 678 to 718: the tokens appended for the feed rate and the arc. The first
  component holds the message of line 688, which is shown without a \<open>return\<close>.
\<close>

definition move_tokens ::
  "pylib \<Rightarrow> window \<Rightarrow> string \<Rightarrow> real list \<Rightarrow> message list \<times> string list result" where
  "move_tokens lib st moveType currentPosition =
     (if moveType \<in> set [''G1'', ''G2'', ''G3''] then
        if \<not> py_in ''background: white'' (feedLE_styleSheet st)
        then ([], Abort (MissingFeedRate moveType))
        else
          let feed = [''F'' @ feedLE st]
          in if moveType \<in> set [''G2'', ''G3''] then
               if \<not> py_in ''background: white'' (arcRadiusLE_styleSheet st)
               then ([], Abort (MissingArcRadius moveType))
               else
                 let pre = (if length (lastPosition st) = 0
                            then [NoPriorPosition moveType] else [])
                 in case (py_get currentPosition 0, py_get (lastPosition st) 0,
                          py_get currentPosition 1, py_get (lastPosition st) 1) of
                      (Inr c0, Inr l0, Inr c1, Inr l1) \<Rightarrow>
                        (case arc_center lib moveType (l0, l1) (c0, c1)
                                (py_float lib (arcRadiusLE st)) of
                           Ok None \<Rightarrow> (pre, Ok feed)
                         | Ok (Some (i, j)) \<Rightarrow>
                             (pre, Ok (feed @ ['' I'' @ format_f lib (precisionSB st) i
                                              @ '' J'' @ format_f lib (precisionSB st) j]))
                         | Abort m \<Rightarrow> (pre, Abort m)
                         | Raise e \<Rightarrow> (pre, Raise e))
                    | _ \<Rightarrow> (pre, Raise IndexError)
             else ([], Ok feed)
      else ([], Ok []))"

text \<open>
  The list widget of Qt: \<open>insertItem\<close> brings a row outside the list to its nearest end,
  \<open>takeItem\<close> does nothing for a row outside the list.
\<close>

definition insertItem :: "string list \<Rightarrow> int \<Rightarrow> string \<Rightarrow> string list" where
  "insertItem items row label =
     (let r = (if row < 0 then 0 else if row > int (length items) then length items else nat row)
      in take r items @ label # drop r items)"

definition takeItem :: "string list \<Rightarrow> int \<Rightarrow> string list" where
  "takeItem items row =
     (if row < 0 \<or> row \<ge> int (length items) then items
      else take (nat row) items @ drop (Suc (nat row)) items)"

text \<open>
  Lines 727 to 738: the entry goes to the row \<open>logToLine\<close> or to the end of the list, and
  \<open>lastPosition\<close> takes the floats of the labels of the checked axes, which are the values
  of \<open>currentPosition\<close>. The save of lines 739 and 740 changes no field of the window.
\<close>

definition log_insert :: "window \<Rightarrow> string \<Rightarrow> real list \<Rightarrow> window" where
  "log_insert st entry currentPosition =
     st\<lparr>gcodeLW :=
          (case logToLine st of
             Some row \<Rightarrow> takeItem (insertItem (gcodeLW st) row entry) (row + 1)
           | None \<Rightarrow> gcodeLW st @ [entry]),
        lastPosition := currentPosition,
        logToLine := None\<rparr>"

text \<open>
  Lines 662 to 726: the entry and \<open>currentPosition\<close>, from the window and the comment,
  with the messages shown on the way.
\<close>

definition compose ::
  "pylib \<Rightarrow> window \<Rightarrow> string \<Rightarrow> message list \<times> (string \<times> real list) result" where
  "compose lib st comment =
     (let axes = checked_axes st
      in if moveTypeEnableCB st then
           (case read_axes lib move_token (position_lbs st) axes of
              Inl e \<Rightarrow> ([], Raise e)
            | Inr (tokens, currentPosition) \<Rightarrow>
                (case moveTypeGB st of
                   None \<Rightarrow> ([], Raise UnboundLocalError)
                 | Some radio \<Rightarrow>
                     (let moveType = gcode_property radio
                      in case move_tokens lib st moveType currentPosition of
                           (pre, Abort m) \<Rightarrow> (pre, Abort m)
                         | (pre, Raise e) \<Rightarrow> (pre, Raise e)
                         | (pre, Ok extra) \<Rightarrow>
                             (pre,
                              Ok (concat ([moveType @ '' ''] @ tokens @ extra
                                          @ (if logCommentLE st \<noteq> [] then ['' ;'' @ comment]
                                             else [])),
                                  currentPosition)))))
         else
           (case read_axes lib simple_token (position_lbs st) axes of
              Inl e \<Rightarrow> ([], Raise e)
            | Inr (tokens, currentPosition) \<Rightarrow>
                ([], Ok (concat (tokens @ [comment]), currentPosition))))"

datatype outcome = Logged | Aborted | Raised py_exception

text \<open>The window after lines 656 to 661.\<close>

definition screen_shot :: "window \<Rightarrow> window" where
  "screen_shot st = (if screenShotEnableCB st then snipFull st else st)"

text \<open>
  \<open>log\<close>: the comment and the screen shot, the entry, and its place in the list. A
  message box followed by \<open>return\<close> and an exception leave the method before line 727.
\<close>

definition log :: "pylib \<Rightarrow> window \<Rightarrow> outcome \<times> window" where
  "log lib st0 =
     (let comment = logComment st0;
          st = screen_shot st0
      in case compose lib st comment of
           (pre, Abort m) \<Rightarrow> (Aborted, st\<lparr>shown := shown st @ pre @ [m]\<rparr>)
         | (pre, Raise e) \<Rightarrow> (Raised e, st\<lparr>shown := shown st @ pre\<rparr>)
         | (pre, Ok (entry, currentPosition)) \<Rightarrow>
             (Logged, log_insert (st\<lparr>shown := shown st @ pre\<rparr>) entry currentPosition))"

text \<open>The menu entry 'Log to this Line' of \<open>eventFilter\<close> (line 370).\<close>

definition setCursor :: "int \<Rightarrow> window \<Rightarrow> window" where
  "setCursor row st = st\<lparr>logToLine := Some row\<rparr>"

subsection \<open>\<open>update\<close>\<close>

text \<open>Lines 744 to 749: the positions to display.\<close>

definition display :: "window \<Rightarrow> stat \<Rightarrow> real list" where
  "display st s =
     (if positionCB st = ''relative'' then
        (let offsets = map (\<lambda>(a, b, c). - (a + b + c))
                         (zip (g5x_offset s) (zip (g92_offset s) (tool_offset s)))
         in map (\<lambda>(a, b). a + b) (zip offsets (actual_position s)))
      else actual_position s)"

text \<open>Lines 750 to 753: the labels of the axes of the machine take the positions.\<close>

fun set_labels ::
  "pylib \<Rightarrow> int \<Rightarrow> real list \<Rightarrow> nat list \<Rightarrow> string option list
   \<Rightarrow> py_exception option \<times> string option list" where
  "set_labels lib precision disp [] lbs = (None, lbs)"
| "set_labels lib precision disp (i # rest) lbs =
     (case py_get lbs (int i) of
        Inl e \<Rightarrow> (Some e, lbs)
      | Inr None \<Rightarrow> set_labels lib precision disp rest lbs
      | Inr (Some old) \<Rightarrow>
          (case py_get disp (int i) of
             Inl e \<Rightarrow> (Some e, lbs)
           | Inr x \<Rightarrow>
               set_labels lib precision disp rest (lbs[i := Some (format_f lib precision x)])))"

text \<open>
  A call of \<open>log\<close> from \<open>update\<close>, followed by the assignment to the latch: an exception
  of \<open>log\<close> leaves \<open>update\<close> before the assignment.
\<close>

definition log_then ::
  "pylib \<Rightarrow> (window \<Rightarrow> window) \<Rightarrow> window \<Rightarrow> py_exception option \<times> window" where
  "log_then lib assign st =
     (case log lib st of
        (Raised e, st') \<Rightarrow> (Some e, st')
      | (Logged, st') \<Rightarrow> (None, assign st')
      | (Aborted, st') \<Rightarrow> (None, assign st'))"

text \<open>Lines 755 to 766.\<close>

definition din_phase :: "pylib \<Rightarrow> stat \<Rightarrow> window \<Rightarrow> py_exception option \<times> window" where
  "din_phase lib s st =
     (case digital_edge (dinLogic st) (din s (dinInput st)) (dinCB st) (dinLog st) of
        (fire, latch) \<Rightarrow>
          if fire then log_then lib (\<lambda>st'. st'\<lparr>dinLog := latch\<rparr>) st
          else (None, st\<lparr>dinLog := latch\<rparr>))"

text \<open>Lines 768 to 779.\<close>

definition dout_phase :: "pylib \<Rightarrow> stat \<Rightarrow> window \<Rightarrow> py_exception option \<times> window" where
  "dout_phase lib s st =
     (case digital_edge (doutLogic st) (dout s (doutInput st)) (doutCB st) (doutLog st) of
        (fire, latch) \<Rightarrow>
          if fire then log_then lib (\<lambda>st'. st'\<lparr>doutLog := latch\<rparr>) st
          else (None, st\<lparr>doutLog := latch\<rparr>))"

text \<open>Lines 781 to 799.\<close>

definition ain_phase :: "pylib \<Rightarrow> stat \<Rightarrow> window \<Rightarrow> py_exception option \<times> window" where
  "ain_phase lib s st =
     (case analog_edge (ainOnLogic st) (ainOnValue st) (ainOffValue st)
             (ain s (ainInput st)) (ainCB st) (ainLog st) of
        (fire, latch, style) \<Rightarrow>
          if fire then
            log_then lib
              (\<lambda>st'. st'\<lparr>ainLog := latch, ainOnValue_styleSheet := style,
                          ainOffValue_styleSheet := style\<rparr>) st
          else (None, st\<lparr>ainLog := latch, ainOnValue_styleSheet := style,
                         ainOffValue_styleSheet := style\<rparr>))"

text \<open>Lines 801 to 819.\<close>

definition aout_phase :: "pylib \<Rightarrow> stat \<Rightarrow> window \<Rightarrow> py_exception option \<times> window" where
  "aout_phase lib s st =
     (case analog_edge (aoutOnLogic st) (aoutOnValue st) (aoutOffValue st)
             (aout s (aoutInput st)) (aoutCB st) (aoutLog st) of
        (fire, latch, style) \<Rightarrow>
          if fire then
            log_then lib
              (\<lambda>st'. st'\<lparr>aoutLog := latch, aoutOnValue_styleSheet := style,
                          aoutOffValue_styleSheet := style\<rparr>) st
          else (None, st\<lparr>aoutLog := latch, aoutOnValue_styleSheet := style,
                         aoutOffValue_styleSheet := style\<rparr>))"

text \<open>The phases in the order of the source; an exception ends the tick.\<close>

definition and_then ::
  "py_exception option \<times> window \<Rightarrow> (window \<Rightarrow> py_exception option \<times> window)
   \<Rightarrow> py_exception option \<times> window" where
  "and_then r phase = (case r of (None, st) \<Rightarrow> phase st | (Some e, st) \<Rightarrow> (Some e, st))"

definition label_phase :: "pylib \<Rightarrow> stat \<Rightarrow> window \<Rightarrow> py_exception option \<times> window" where
  "label_phase lib s st =
     (case set_labels lib (precisionSB st) (display st s) (axes st) (position_lbs st) of
        (r, lbs) \<Rightarrow> (r, st\<lparr>position_lbs := lbs\<rparr>))"

definition update :: "pylib \<Rightarrow> stat \<Rightarrow> window \<Rightarrow> py_exception option \<times> window" where
  "update lib s st =
     and_then (and_then (and_then (and_then (label_phase lib s st)
       (din_phase lib s)) (dout_phase lib s)) (ain_phase lib s)) (aout_phase lib s)"

text \<open>
  The timer calls \<open>update\<close> tick after tick (lines 249 to 251). \<open>ticks\<close> is the run over a sequence of
  samples of the status channel: the windows at the start of each tick. A tick that ends
  in an exception leaves the window as it is when the exception is raised, and the next
  tick starts from there. \<open>returns\<close> holds when no tick of the run ends in an exception.
\<close>

fun ticks :: "pylib \<Rightarrow> stat list \<Rightarrow> window \<Rightarrow> window list" where
  "ticks lib [] st = []"
| "ticks lib (s # ss) st = st # ticks lib ss (snd (update lib s st))"

fun returns :: "pylib \<Rightarrow> stat list \<Rightarrow> window \<Rightarrow> bool" where
  "returns lib [] st = True"
| "returns lib (s # ss) st =
     (fst (update lib s st) = None \<and> returns lib ss (snd (update lib s st)))"

text \<open>
  Whether the tick on the sample \<open>s\<close> from the window \<open>st\<close> calls \<open>log\<close> for a channel: the
  tick reaches the block of the channel, no block before it having raised an exception,
  and takes the branch that calls \<open>log\<close> (lines 757 and 763, 770 and 776, 783 and 791, 803
  and 811).
\<close>

definition din_fires :: "pylib \<Rightarrow> stat \<Rightarrow> window \<Rightarrow> bool" where
  "din_fires lib s st =
     (case label_phase lib s st of
        (None, st1) \<Rightarrow>
          fst (digital_edge (dinLogic st1) (din s (dinInput st1)) (dinCB st1) (dinLog st1))
      | (Some e, st1) \<Rightarrow> False)"

definition dout_fires :: "pylib \<Rightarrow> stat \<Rightarrow> window \<Rightarrow> bool" where
  "dout_fires lib s st =
     (case and_then (label_phase lib s st) (din_phase lib s) of
        (None, st2) \<Rightarrow>
          fst (digital_edge (doutLogic st2) (dout s (doutInput st2)) (doutCB st2) (doutLog st2))
      | (Some e, st2) \<Rightarrow> False)"

definition ain_fires :: "pylib \<Rightarrow> stat \<Rightarrow> window \<Rightarrow> bool" where
  "ain_fires lib s st =
     (case and_then (and_then (label_phase lib s st) (din_phase lib s)) (dout_phase lib s) of
        (None, st3) \<Rightarrow>
          fst (analog_edge (ainOnLogic st3) (ainOnValue st3) (ainOffValue st3)
                 (ain s (ainInput st3)) (ainCB st3) (ainLog st3))
      | (Some e, st3) \<Rightarrow> False)"

definition aout_fires :: "pylib \<Rightarrow> stat \<Rightarrow> window \<Rightarrow> bool" where
  "aout_fires lib s st =
     (case and_then (and_then (and_then (label_phase lib s st) (din_phase lib s))
                       (dout_phase lib s)) (ain_phase lib s) of
        (None, st4) \<Rightarrow>
          fst (analog_edge (aoutOnLogic st4) (aoutOnValue st4) (aoutOffValue st4)
                 (aout s (aoutInput st4)) (aoutCB st4) (aoutLog st4))
      | (Some e, st4) \<Rightarrow> False)"


subsection \<open>An exact reading of the library\<close>

text \<open>
  The theorems that name a library \<open>lib\<close> hold for every library. To run the model on a
  concrete input, \<open>declib\<close> reads the library without rounding: \<open>float\<close> on the literals
  made of a sign, digits and a decimal point, the rendering of a number with its decimals
  rounded half to even, the arithmetic as that of the real numbers, \<open>x ** y\<close> with
  OverflowError from the magnitude that rounds to infinity, and the functions of \<open>math\<close>
  as the real functions. It is the library of Python wherever every value read, computed
  or rendered is a double, which is the case of the arithmetic at the inputs it is run on
  below; there the offset of the arc centre from the midpoint is 0, so that the values of
  \<open>math.pi\<close>, \<open>math.cos\<close> and \<open>math.sin\<close>, which are not doubles, do not reach a result.
\<close>

definition is_digit :: "char \<Rightarrow> bool" where
  "is_digit c = (48 \<le> (of_char c :: nat) \<and> (of_char c :: nat) \<le> 57)"

definition digits_val :: "string \<Rightarrow> nat" where
  "digits_val ds = foldl (\<lambda>a c. 10 * a + (of_char c - 48)) 0 ds"

definition dec_unsigned :: "string \<Rightarrow> real option" where
  "dec_unsigned s =
     (let ip = takeWhile (\<lambda>c. c \<noteq> CHR ''.'') s;
          rest = dropWhile (\<lambda>c. c \<noteq> CHR ''.'') s;
          fp = tl rest
      in if \<not> (list_all is_digit ip \<and> list_all is_digit fp) \<or> (ip = [] \<and> fp = []) then None
         else Some (real (digits_val ip) + real (digits_val fp) / 10 ^ length fp))"

definition dec_float :: "string \<Rightarrow> real option" where
  "dec_float s =
     (case s of
        [] \<Rightarrow> None
      | c # r \<Rightarrow>
          if c = CHR ''-'' then map_option uminus (dec_unsigned r)
          else if c = CHR ''+'' then dec_unsigned r
          else dec_unsigned s)"

definition dec_format :: "int \<Rightarrow> real \<Rightarrow> string" where
  "dec_format precision x =
     (let p = nat precision;
          y = \<bar>x\<bar> * 10 ^ p;
          f = \<lfloor>y\<rfloor>;
          n = nat (if y - of_int f > 1 / 2 \<or> (y - of_int f = 1 / 2 \<and> odd f) then f + 1 else f);
          ds = str_nat n;
          padded = replicate (Suc p - length ds) CHR ''0'' @ ds;
          k = length padded - p
      in (if x < 0 then ''-'' else [])
         @ (if p = 0 then padded else take k padded @ ''.'' @ drop k padded))"

text \<open>
  \<open>math.atan2(y, x)\<close>: the angle of the point \<open>(x, y)\<close> in \<open>(-pi, pi]\<close>, and \<open>0\<close> at the
  origin.
\<close>

definition atan2 :: "real \<Rightarrow> real \<Rightarrow> real" where
  "atan2 y x =
     (if 0 < x then arctan (y / x)
      else if x < 0 \<and> 0 \<le> y then arctan (y / x) + pi
      else if x < 0 then arctan (y / x) - pi
      else if 0 < y then pi / 2
      else if y < 0 then - (pi / 2)
      else 0)"

text \<open>
  \<open>x ** y\<close> for the exponent 2 of the source: OverflowError from \<open>2 ^ 1024 - 2 ^ 970\<close>, the
  least magnitude that rounds to infinity. \<open>math.sqrt\<close> refuses a negative number.
\<close>

definition dec_pow :: "real \<Rightarrow> real \<Rightarrow> py_exception + real" where
  "dec_pow x y =
     (let r = x ^ nat \<lfloor>y\<rfloor>
      in if \<bar>r\<bar> < 2 ^ 1024 - 2 ^ 970 then Inr r else Inl OverflowError)"

definition dec_sqrt :: "real \<Rightarrow> py_exception + real" where
  "dec_sqrt x = (if x < 0 then Inl ValueError else Inr (sqrt x))"

definition declib :: pylib where
  "declib =
     \<lparr>py_float = dec_float, format_f = dec_format,
      f_sub = (\<lambda>x y. x - y), f_add = (\<lambda>x y. x + y), f_mul = (\<lambda>x y. x * y),
      f_div = (\<lambda>x y. x / y), f_pow = dec_pow, m_sqrt = dec_sqrt,
      m_cos = (\<lambda>x. Inr (cos x)), m_sin = (\<lambda>x. Inr (sin x)),
      m_atan2 = atan2, m_pi = pi\<rparr>"


subsection \<open>A window and a sample to run the model on\<close>

text \<open>
  The window of a machine with the axes X, Y and Z after \<open>__init__\<close>: the check boxes and
  labels of \<open>setupAxes\<close>, the variables of \<open>setupVars\<close>, the items of \<open>setupGui\<close>, no saved
  settings, and the other widgets empty and unchecked.
\<close>

definition window0 :: window where
  "window0 =
     \<lparr>axis_cbs = [Some True, Some True, Some True, None, None, None, None, None, None],
      position_lbs = [Some ''pos0'', Some ''pos1'', Some ''pos2'',
                      None, None, None, None, None, None],
      axes = [0, 1, 2],
      positionCB = ''relative'',
      precisionSB = 3,
      moveTypeEnableCB = False,
      moveTypeGB = Some g0RB,
      feedLE = [],
      feedLE_styleSheet = [],
      arcRadiusLE = [],
      arcRadiusLE_styleSheet = [],
      logCommentLE = [],
      screenShotEnableCB = False,
      imgFileName2CmntCB = False,
      imgFileNameLE = ''lcnc_logger_img'',
      imgFileIndexSB = 0,
      autoIncrementCB = True,
      lastPosition = [],
      logToLine = None,
      gcodeLW = [],
      prescriptLW = [],
      postscriptLW = [],
      prescriptCB = False,
      postscriptCB = False,
      dinLogic = ''true'',
      dinCB = False,
      dinInput = 0,
      dinLog = False,
      doutLogic = ''true'',
      doutCB = False,
      doutInput = 0,
      doutLog = False,
      ainOnLogic = ''<'',
      ainOnValue = 0,
      ainOffValue = 0,
      ainCB = False,
      ainInput = 0,
      ainLog = False,
      ainOnValue_styleSheet = [],
      ainOffValue_styleSheet = [],
      aoutOnLogic = ''<'',
      aoutOnValue = 0,
      aoutOffValue = 0,
      aoutCB = False,
      aoutInput = 0,
      aoutLog = False,
      aoutOnValue_styleSheet = [],
      aoutOffValue_styleSheet = [],
      shown = []\<rparr>"

text \<open>A sample of the status channel: the machine at X1 Y2 Z3, no offsets, every signal off.\<close>

definition stat0 :: stat where
  "stat0 =
     \<lparr>actual_position = [1, 2, 3, 0, 0, 0, 0, 0, 0],
      g5x_offset = [0, 0, 0, 0, 0, 0, 0, 0, 0],
      g92_offset = [0, 0, 0, 0, 0, 0, 0, 0, 0],
      tool_offset = [0, 0, 0, 0, 0, 0, 0, 0, 0],
      din = (\<lambda>i. False),
      dout = (\<lambda>i. False),
      ain = (\<lambda>i. 0),
      aout = (\<lambda>i. 0)\<rparr>"

text \<open>
  The window at the sample \<open>stat0\<close> with move types enabled: the labels show X 1.000,
  Y 2.000 and Z 3.000, and the style sheets of the feed rate and of the arc radius are
  those that \<open>check_feed_arc_radius\<close> computes from the texts.
\<close>

definition move_window :: "radio \<Rightarrow> string \<Rightarrow> string \<Rightarrow> window" where
  "move_window button feed radius =
     check_feed_arc_radius declib
       (window0\<lparr>position_lbs := [Some ''1.000'', Some ''2.000'', Some ''3.000'',
                                  None, None, None, None, None, None],
                moveTypeEnableCB := True, moveTypeGB := Some button,
                feedLE := feed, arcRadiusLE := radius\<rparr>)"

text \<open>The four lines that \<open>openFile\<close> reads as markers.\<close>

definition markers :: "string list" where
  "markers = ['';prescript_start'', '';prescript_end'', '';postscript_start'', '';postscript_end'']"

text \<open>
  A line that survives the file: it holds no line feed and no carriage return, and it is
  not one of the markers.
\<close>

definition plain :: "string \<Rightarrow> bool" where
  "plain l \<longleftrightarrow> nl \<notin> set l \<and> cr \<notin> set l \<and> l \<notin> set markers"

text \<open>The text made of the given lines, each ended by a line feed.\<close>

definition unlines :: "string list \<Rightarrow> string" where
  "unlines ls = concat (map (\<lambda>l. l @ [nl]) ls)"

text \<open>A script with one line of prescript, two entries and one line of postscript.\<close>

definition script1 :: window where
  "script1 =
     window0\<lparr>prescriptCB := True, postscriptCB := True,
             prescriptLW := [''G21''],
             gcodeLW := [''G0 X1.000 Y2.000 Z3.000 '', ''G1 X4.000 Y2.000 Z3.000 F100''],
             postscriptLW := [''M2'']\<rparr>"

text \<open>
  The window at X1 Y2 Z3 with the move type G1 and no feed rate, the digital input enabled;
  and the sample in which every digital input is on.
\<close>

definition din_window :: window where
  "din_window = (move_window g1RB [] [])\<lparr>dinCB := True\<rparr>"

definition din_high :: stat where
  "din_high = stat0\<lparr>din := (\<lambda>i. True)\<rparr>"

text \<open>
  The same window with the four channels enabled, the analog ones set to fire above 5 and
  to release below 2; and the sample in which every digital signal is on and every analog
  signal is at 6.
\<close>

definition armed_window :: window where
  "armed_window =
     (move_window g1RB [] [])\<lparr>dinCB := True, doutCB := True,
        ainOnLogic := ''>'', ainOnValue := 5, ainOffValue := 2, ainCB := True,
        aoutOnLogic := ''>'', aoutOnValue := 5, aoutOffValue := 2, aoutCB := True\<rparr>"

definition high_stat :: stat where
  "high_stat = stat0\<lparr>din := (\<lambda>i. True), dout := (\<lambda>i. True), ain := (\<lambda>i. 6), aout := (\<lambda>i. 6)\<rparr>"


text \<open>
  The windows of a run at X1 Y2 Z3 with the move type G0: the four channels are enabled,
  the digital ones with the logic 'true', the analog ones set to fire above 5 and to
  release below 2; \<open>g\<close> and \<open>l\<close> are the entries and \<open>lastPosition\<close>, and \<open>dl\<close>, \<open>ol\<close>, \<open>al\<close> and \<open>bl\<close>
  the four latches. \<open>sample d q a b\<close> is the machine at X1 Y2 Z3 with these four signals.
\<close>

definition run_window ::
  "string list \<Rightarrow> real list \<Rightarrow> bool \<Rightarrow> bool \<Rightarrow> bool \<Rightarrow> bool \<Rightarrow> window" where
  "run_window g l dl ol al bl =
     (move_window g0RB [] [])
       \<lparr>gcodeLW := g, lastPosition := l, logToLine := None,
        dinCB := True, dinLog := dl, doutCB := True, doutLog := ol,
        ainOnLogic := ''>'', ainOnValue := 5, ainOffValue := 2, ainCB := True, ainLog := al,
        ainOnValue_styleSheet := ''background: white;'',
        ainOffValue_styleSheet := ''background: white;'',
        aoutOnLogic := ''>'', aoutOnValue := 5, aoutOffValue := 2, aoutCB := True, aoutLog := bl,
        aoutOnValue_styleSheet := ''background: white;'',
        aoutOffValue_styleSheet := ''background: white;''\<rparr>"

definition sample :: "bool \<Rightarrow> bool \<Rightarrow> real \<Rightarrow> real \<Rightarrow> stat" where
  "sample d q a b = stat0\<lparr>din := (\<lambda>i. d), dout := (\<lambda>i. q), ain := (\<lambda>i. a), aout := (\<lambda>i. b)\<rparr>"

text \<open>The window at X1 Y2 Z3 with the move type G0 and three entries in the list.\<close>

definition cursor_window :: window where
  "cursor_window =
     (move_window g0RB [] [])\<lparr>gcodeLW := [''G0 X4.000 '', ''G0 X5.000 '', ''G0 X6.000 '']\<rparr>"

text \<open>
  The window at X1 Y2 Z3 with the check box of X unchecked, the move type G2, the feed
  rate 100 and the radius 5, after an entry logged with the same check boxes at Y-8 Z3.
\<close>

definition yz_arc_window :: window where
  "yz_arc_window =
     (move_window g2RB ''100'' ''5'')
       \<lparr>axis_cbs := [Some False, Some True, Some True, None, None, None, None, None, None],
        lastPosition := [- 8, 3]\<rparr>"

section \<open>The arc centre\<close>

lemma raising_simps [simp]: "raising (Inl e) k = Raise e" "raising (Inr x) k = k x"
  by (simp_all add: raising_def)

lemmas declib_ops = declib_def dec_pow_def dec_sqrt_def atan2_def

text \<open>
  C2, as stated, fails on a radius whose square is out of the range of the floats: from
  (0, 0) to (10, 0) with the positive radius \<open>2 ^ 600\<close>, which is not below half the
  distance, the solver returns no centre: \<open>radius ** 2\<close> raises OverflowError (line 706).
\<close>

theorem arc_center_overflow:
  "(0::real) < 2 ^ 600 \<and> \<not> (2 ^ 600 < (10::real) / 2)
   \<and> arc_center declib ''G2'' (0, 0) (10, 0) (Some (2 ^ 600)) = Raise OverflowError"
proof -
  have "\<not> \<bar>((2::real) ^ 600) ^ 2\<bar> < 2 ^ 1024 - 2 ^ 970"
    by (simp add: power_mult [symmetric])
  then show ?thesis
    by (simp add: arc_center_def declib_ops Let_def)
qed

text \<open>
  C2, amended. For every library, start point, end point, radius and direction, with
  \<open>dx, dy\<close> the end minus the start and every operation that of the library on floats: when
  \<open>dx\<close> and \<open>dy\<close> are both 0 the arc centre is refused with DegenerateMove; otherwise, with
  \<open>distance\<close> the square root of the sum of the squares, a radius below \<open>distance / 2\<close> is
  refused with RadiusTooSmall, which carries \<open>distance / 2\<close>; otherwise the offset of the
  centre from the start is the midpoint plus \<open>sqrt (radius ** 2 - (distance / 2) ** 2)\<close>
  times \<open>(cos \<theta>, sin \<theta>)\<close>, with \<open>\<theta> = atan2 dy dx - pi / 2\<close> for G2 (clockwise) and
  \<open>+ pi / 2\<close> for G3 (counterclockwise); and a square, a square root, a cosine or a sine
  that raises an exception ends the attempt in that exception. From (0, 0) to (10, 0)
  with radius 5, clockwise, the offset is I = 5, J = 0.
\<close>

theorem arc_center_solver:
  assumes "moveType = ''G2'' \<or> moveType = ''G3''"
    and "dx = f_sub lib ex sx" "dy = f_sub lib ey sy"
    and "half = f_div lib distance 2"
    and "\<theta> = (if moveType = ''G2'' then f_sub lib (m_atan2 lib dy dx) (f_div lib (m_pi lib) 2)
              else f_add lib (m_atan2 lib dy dx) (f_div lib (m_pi lib) 2))"
  shows "(dx = 0 \<and> dy = 0
            \<longrightarrow> arc_center lib moveType (sx, sy) (ex, ey) (Some radius)
                  = Abort (DegenerateMove moveType))
         \<and> (\<not> (dx = 0 \<and> dy = 0) \<and> f_pow lib dx 2 = Inr dx2 \<and> f_pow lib dy 2 = Inr dy2
              \<and> m_sqrt lib (f_add lib dx2 dy2) = Inr distance
            \<longrightarrow> (radius < half
                   \<longrightarrow> arc_center lib moveType (sx, sy) (ex, ey) (Some radius)
                         = Abort (RadiusTooSmall half))
                \<and> (\<not> radius < half \<and> f_pow lib radius 2 = Inr r2 \<and> f_pow lib half 2 = Inr h2
                     \<and> m_sqrt lib (f_sub lib r2 h2) = Inr magnitude
                     \<and> m_cos lib \<theta> = Inr c \<and> m_sin lib \<theta> = Inr s
                   \<longrightarrow> arc_center lib moveType (sx, sy) (ex, ey) (Some radius)
                         = Ok (Some (f_add lib (f_div lib dx 2) (f_mul lib magnitude c),
                                     f_add lib (f_div lib dy 2) (f_mul lib magnitude s))))
                \<and> (\<not> radius < half
                     \<and> (f_pow lib radius 2 = Inl e
                        \<or> f_pow lib radius 2 = Inr r2
                          \<and> (f_pow lib half 2 = Inl e
                             \<or> f_pow lib half 2 = Inr h2
                               \<and> (m_sqrt lib (f_sub lib r2 h2) = Inl e
                                  \<or> m_sqrt lib (f_sub lib r2 h2) = Inr magnitude
                                    \<and> (m_cos lib \<theta> = Inl e
                                       \<or> m_cos lib \<theta> = Inr c \<and> m_sin lib \<theta> = Inl e))))
                   \<longrightarrow> arc_center lib moveType (sx, sy) (ex, ey) (Some radius) = Raise e))
         \<and> (\<not> (dx = 0 \<and> dy = 0)
              \<and> (f_pow lib dx 2 = Inl e
                 \<or> f_pow lib dx 2 = Inr dx2
                   \<and> (f_pow lib dy 2 = Inl e
                      \<or> f_pow lib dy 2 = Inr dy2 \<and> m_sqrt lib (f_add lib dx2 dy2) = Inl e))
            \<longrightarrow> arc_center lib moveType (sx, sy) (ex, ey) (Some radius) = Raise e)
         \<and> arc_center declib ''G2'' (0, 0) (10, 0) (Some 5) = Ok (Some (5, 0))"
proof (intro conjI)
  show "arc_center declib ''G2'' (0, 0) (10, 0) (Some 5) = Ok (Some (5, 0))"
    by (simp add: arc_center_def declib_ops Let_def)
qed (use assms in \<open>auto simp: arc_center_def Let_def\<close>)

theorem arc_center_solver_witness:
  "(''G2'' = ''G2'' \<or> ''G2'' = ''G3'')
   \<and> f_sub declib 10 0 = 10 \<and> f_sub declib 0 0 = 0 \<and> f_div declib 10 2 = 5
   \<and> f_pow declib 10 2 = Inr 100 \<and> f_pow declib 0 2 = Inr 0
   \<and> m_sqrt declib (f_add declib 100 0) = Inr 10
   \<and> arc_center declib ''G2'' (0, 0) (0, 0) (Some 5) = Abort (DegenerateMove ''G2'')
   \<and> arc_center declib ''G2'' (0, 0) (10, 0) (Some 4) = Abort (RadiusTooSmall 5)"
proof -
  have d: "''G2'' = ''G2'' \<or> ''G2'' = ''G3''" by simp
  have o: "f_sub declib 10 0 = 10" "f_sub declib 0 0 = 0" "f_div declib 10 2 = 5"
    "f_pow declib 10 2 = Inr 100" "f_pow declib 0 2 = Inr 0"
    "m_sqrt declib (f_add declib 100 0) = Inr 10"
    by (simp_all add: declib_ops)
  have s: "sqrt 100 = 10"
    using real_sqrt_abs [of 10] by simp
  note a = arc_center_solver [where lib = declib and moveType = "''G2''" and sx = 0 and sy = 0
      and ex = 0 and ey = 0 and dx = 0 and dy = 0 and radius = 5, OF d, THEN conjunct1]
  note b = arc_center_solver [where lib = declib and moveType = "''G2''" and sx = 0 and sy = 0
      and ex = 10 and ey = 0 and dx = 10 and dy = 0 and radius = 4 and distance = 10
      and half = 5 and ?dx2.0 = 100 and ?dy2.0 = 0, OF d, THEN conjunct2, THEN conjunct1]
  have 1: "arc_center declib ''G2'' (0, 0) (0, 0) (Some 5) = Abort (DegenerateMove ''G2'')"
    using a by (simp add: declib_ops)
  have 2: "arc_center declib ''G2'' (0, 0) (10, 0) (Some 4) = Abort (RadiusTooSmall 5)"
    using b by (simp add: declib_ops s)
  from d o 1 2 show ?thesis by blast
qed

section \<open>The edge detectors\<close>

text \<open>
  C5, as stated, fails on a channel that is not enabled: with the thresholds 5 and 2 in
  the order of '>', the value 6 is above the on threshold and the latch is clear, yet the
  latch stays clear and \<open>log\<close> is not called.
\<close>

theorem analog_edge_disabled_counterexample:
  "(6::real) > 5 \<and> (5::real) > 2
   \<and> analog_edge ''>'' 5 2 6 False False = (False, False, ''background: white;'')"
  by (simp add: analog_edge_def)

text \<open>
  C6. For every analog channel whose thresholds are not in the order of its on
  comparator, and every sequence of samples: no tick calls \<open>log\<close>, the latch keeps its
  value, and every tick reports the configuration error by the yellow background of the
  two threshold boxes.
\<close>

theorem analog_misconfigured_never_fires:
  assumes "\<not> (onLogic = ''>'' \<and> onValue > offValue)"
    and "\<not> (onLogic = ''<'' \<and> onValue < offValue)"
  shows "analog_run onLogic onValue offValue enabled latch vs
           = map (\<lambda>v. (False, latch, ''background: yellow;'')) vs"
  using assms by (induction vs) (simp_all add: analog_edge_def)

theorem analog_misconfigured_never_fires_witness:
  "\<not> (''>'' = ''>'' \<and> (2::real) > 5) \<and> \<not> (''>'' = ''<'' \<and> (2::real) < 5)
   \<and> analog_run ''>'' 2 5 True False [1, 6, 6, 1]
       = [(False, False, ''background: yellow;''), (False, False, ''background: yellow;''),
          (False, False, ''background: yellow;''), (False, False, ''background: yellow;'')]"
proof -
  have h1: "\<not> (''>'' = ''>'' \<and> (2::real) > 5)" by simp
  have h2: "\<not> (''>'' = ''<'' \<and> (2::real) < 5)" by simp
  note r = analog_misconfigured_never_fires [OF h1 h2, of True False "[1, 6, 6, 1]"]
  show ?thesis unfolding r by simp
qed


section \<open>Saving and opening a script\<close>

lemma unlines_simps [simp]: "unlines [] = []" "unlines (l # ls) = l @ nl # unlines ls"
  by (simp_all add: unlines_def)

lemma unlines_append [simp]: "unlines (xs @ ys) = unlines xs @ unlines ys"
  by (simp add: unlines_def)

lemma join_nl_unlines: "ls \<noteq> [] \<Longrightarrow> join_nl ls @ [nl] = unlines ls"
  by (induction ls rule: join_nl.induct) simp_all

lemma universal_newlines_id: "cr \<notin> set s \<Longrightarrow> universal_newlines s = s"
  by (induction s rule: universal_newlines.induct) (auto split: list.splits)

lemma file_lines_line: "nl \<notin> set l \<Longrightarrow> file_lines (l @ nl # rest) = (l @ [nl]) # file_lines rest"
  by (induction l) auto

lemma file_lines_unlines:
  "\<forall>l \<in> set ls. nl \<notin> set l \<Longrightarrow> file_lines (unlines ls) = map (\<lambda>l. l @ [nl]) ls"
  by (induction ls) (simp_all add: file_lines_line)

lemma dropWhile_nl_free: "nl \<notin> set xs \<Longrightarrow> dropWhile (\<lambda>c. c = nl) xs = xs"
  by (cases xs) auto

lemma strip_nl_line: "nl \<notin> set l \<Longrightarrow> strip_nl (l @ [nl]) = l"
proof (cases l)
  case Nil
  then show ?thesis by (simp add: strip_nl_def)
next
  case (Cons c cs)
  assume "nl \<notin> set l"
  with Cons have c: "c \<noteq> nl" and cs: "nl \<notin> set (rev cs @ [c])" by auto
  show ?thesis using Cons c dropWhile_nl_free [OF cs] by (simp add: strip_nl_def)
qed

lemma cr_unlines: "cr \<in> set (unlines ls) \<longleftrightarrow> (\<exists>l \<in> set ls. cr \<in> set l)"
  by (induction ls) auto

lemma open_line_plain:
  "plain l \<Longrightarrow> open_line (t, st) (l @ [nl]) =
     (t, if t = ''prescript'' then
           (if prescriptCB st then st\<lparr>prescriptLW := prescriptLW st @ [l]\<rparr> else st)
         else if t = ''log'' then st\<lparr>gcodeLW := gcodeLW st @ [l]\<rparr>
         else if t = ''postscript'' then
           (if postscriptCB st then st\<lparr>postscriptLW := postscriptLW st @ [l]\<rparr> else st)
         else st)"
  by (simp add: open_line_def plain_def markers_def strip_nl_line Let_def)

lemma open_line_marker:
  "open_line (t, st) ('';prescript_start'' @ [nl]) = (''prescript'', st)"
  "open_line (t, st) ('';prescript_end'' @ [nl]) = (''log'', st)"
  "open_line (t, st) ('';postscript_start'' @ [nl]) = (''postscript'', st)"
  "open_line (t, st) ('';postscript_end'' @ [nl]) = (''log'', st)"
  by (simp_all add: open_line_def strip_nl_def Let_def)

lemma foldl_prescript:
  "\<forall>l \<in> set ls. plain l \<Longrightarrow> prescriptCB st \<Longrightarrow>
   foldl open_line (''prescript'', st) (map (\<lambda>l. l @ [nl]) ls)
     = (''prescript'', st\<lparr>prescriptLW := prescriptLW st @ ls\<rparr>)"
  by (induction ls arbitrary: st) (simp_all add: open_line_plain)

lemma foldl_log:
  "\<forall>l \<in> set ls. plain l \<Longrightarrow>
   foldl open_line (''log'', st) (map (\<lambda>l. l @ [nl]) ls)
     = (''log'', st\<lparr>gcodeLW := gcodeLW st @ ls\<rparr>)"
  by (induction ls arbitrary: st) (simp_all add: open_line_plain)

lemma foldl_postscript:
  "\<forall>l \<in> set ls. plain l \<Longrightarrow> postscriptCB st \<Longrightarrow>
   foldl open_line (''postscript'', st) (map (\<lambda>l. l @ [nl]) ls)
     = (''postscript'', st\<lparr>postscriptLW := postscriptLW st @ ls\<rparr>)"
  by (induction ls arbitrary: st) (simp_all add: open_line_plain)

lemma save_unlines:
  assumes "prescriptCB st" "postscriptCB st"
    and "prescriptLW st \<noteq> []" "gcodeLW st \<noteq> []" "postscriptLW st \<noteq> []"
  shows "save st = unlines ('';prescript_start'' # prescriptLW st @ '';prescript_end'' # gcodeLW st
                      @ '';postscript_start'' # postscriptLW st @ ['';postscript_end''])"
proof -
  have a: "\<And>ls rest. ls \<noteq> [] \<Longrightarrow> join_nl ls @ nl # rest = unlines ls @ rest"
    using join_nl_unlines by (metis append_Cons append_Nil append_assoc)
  show ?thesis using assms by (simp add: save_def Let_def a)
qed

text \<open>
  C8, as stated, fails on a script with an entry that is itself a marker: the three
  regions are not empty and both optional regions are enabled, yet opening the saved
  text reads the entry ';prescript\_start' as a marker and files the entry after it
  under the prescript.
\<close>

theorem save_openFile_marker_counterexample:
  "(let w = window0\<lparr>prescriptCB := True, postscriptCB := True, prescriptLW := [''G21''],
                      gcodeLW := ['';prescript_start'', ''G0 X1.000 ''],
                      postscriptLW := [''M2'']\<rparr>
    in prescriptCB w \<and> postscriptCB w \<and> prescriptLW w \<noteq> [] \<and> gcodeLW w \<noteq> []
       \<and> postscriptLW w \<noteq> []
       \<and> gcodeLW (openFile w (save w)) = []
       \<and> prescriptLW (openFile w (save w)) = [''G21'', ''G0 X1.000 ''])"
  by (simp add: Let_def window0_def save_def openFile_def open_line_def strip_nl_def)

text \<open>
  C8, amended. For every script whose prescript, entries and postscript are not empty,
  with both optional regions enabled, and in which no line holds a line break or is one
  of the four markers: opening the saved text in a window with both regions enabled
  gives that window the three regions of the script and changes nothing else; opened in
  the window that saved it, the window is as before.
\<close>

theorem save_openFile_roundtrip:
  assumes "prescriptCB st" "postscriptCB st" "prescriptCB w" "postscriptCB w"
    and "prescriptLW st \<noteq> []" "gcodeLW st \<noteq> []" "postscriptLW st \<noteq> []"
    and "\<forall>l \<in> set (prescriptLW st @ gcodeLW st @ postscriptLW st). plain l"
  shows "openFile w (save st) =
           w\<lparr>gcodeLW := gcodeLW st, prescriptLW := prescriptLW st,
             postscriptLW := postscriptLW st\<rparr>
         \<and> openFile st (save st) = st"
proof -
  let ?all = "'';prescript_start'' # prescriptLW st @ '';prescript_end'' # gcodeLW st
                      @ '';postscript_start'' # postscriptLW st @ ['';postscript_end'']"
  have pl: "\<forall>l \<in> set (prescriptLW st). plain l" "\<forall>l \<in> set (gcodeLW st). plain l"
    "\<forall>l \<in> set (postscriptLW st). plain l" using assms(8) by auto
  have nonl: "\<forall>l \<in> set ?all. nl \<notin> set l" using pl by (auto simp: plain_def)
  have nocr: "cr \<notin> set (unlines ?all)" unfolding cr_unlines using pl by (auto simp: plain_def)
  have fl: "file_lines (universal_newlines (save st)) = map (\<lambda>l. l @ [nl]) ?all"
    unfolding save_unlines [OF assms(1,2,5,6,7)] universal_newlines_id [OF nocr]
    by (rule file_lines_unlines [OF nonl])
  have any: "openFile v (save st) =
           v\<lparr>gcodeLW := gcodeLW st, prescriptLW := prescriptLW st,
             postscriptLW := postscriptLW st\<rparr>"
    if "prescriptCB v" "postscriptCB v" for v
    unfolding openFile_def fl using that pl
    by (simp add: Let_def open_line_marker [simplified] foldl_prescript foldl_log
        foldl_postscript)
  show ?thesis using any [OF assms(3,4)] any [OF assms(1,2)] by simp
qed

theorem save_openFile_roundtrip_witness:
  "prescriptCB script1 \<and> postscriptCB script1 \<and> prescriptLW script1 \<noteq> []
   \<and> gcodeLW script1 \<noteq> [] \<and> postscriptLW script1 \<noteq> []
   \<and> list_all plain (prescriptLW script1 @ gcodeLW script1 @ postscriptLW script1)
   \<and> openFile script1 (save script1) = script1"
proof -
  have c: "prescriptCB script1" "postscriptCB script1"
    by (simp_all add: script1_def)
  have n: "prescriptLW script1 \<noteq> []" "gcodeLW script1 \<noteq> []" "postscriptLW script1 \<noteq> []"
    by (simp_all add: script1_def)
  have p: "\<forall>l \<in> set (prescriptLW script1 @ gcodeLW script1 @ postscriptLW script1). plain l"
    by (simp add: script1_def plain_def markers_def)
  have q: "list_all plain (prescriptLW script1 @ gcodeLW script1 @ postscriptLW script1)"
    using p unfolding list_all_iff .
  note r = save_openFile_roundtrip [OF c c n p, THEN conjunct2]
  show ?thesis using c n q r by blast
qed


section \<open>Composing and placing an entry\<close>

lemma screen_shot_fields [simp]:
  "gcodeLW (screen_shot st) = gcodeLW st" "prescriptLW (screen_shot st) = prescriptLW st"
  "postscriptLW (screen_shot st) = postscriptLW st" "logToLine (screen_shot st) = logToLine st"
  "lastPosition (screen_shot st) = lastPosition st" "shown (screen_shot st) = shown st"
  "dinLog (screen_shot st) = dinLog st" "doutLog (screen_shot st) = doutLog st"
  "ainLog (screen_shot st) = ainLog st" "aoutLog (screen_shot st) = aoutLog st"
  "position_lbs (screen_shot st) = position_lbs st" "axis_cbs (screen_shot st) = axis_cbs st"
  by (simp_all add: screen_shot_def snipFull_def)

lemma screen_shot_logToLine: "screen_shot (st\<lparr>logToLine := x\<rparr>) = (screen_shot st)\<lparr>logToLine := x\<rparr>"
  by (simp add: screen_shot_def snipFull_def)

lemma logComment_logToLine [simp]: "logComment (st\<lparr>logToLine := x\<rparr>) = logComment st"
  by (simp add: logComment_def imgName_def)

lemma checked_axes_screen_shot [simp]: "checked_axes (screen_shot st) = checked_axes st"
  by (simp add: checked_axes_def)

lemma move_tokens_logToLine [simp]:
  "move_tokens lib (st\<lparr>logToLine := x\<rparr>) mt cp = move_tokens lib st mt cp"
  by (simp add: move_tokens_def
      cong del: if_weak_cong prod.case_cong_weak sum.case_cong_weak result.case_cong_weak option.case_cong_weak)

lemma compose_logToLine [simp]: "compose lib (st\<lparr>logToLine := x\<rparr>) c = compose lib st c"
  by (simp add: compose_def checked_axes_def
      cong del: if_weak_cong prod.case_cong_weak sum.case_cong_weak result.case_cong_weak option.case_cong_weak)


lemma log_Logged:
  assumes "log lib st = (Logged, st')"
  obtains pre entry cp where "compose lib (screen_shot st) (logComment st) = (pre, Ok (entry, cp))"
    and "st' = log_insert ((screen_shot st)\<lparr>shown := shown st @ pre\<rparr>) entry cp"
  using assms unfolding log_def Let_def
  by (auto split: prod.splits result.splits)

lemma log_Aborted:
  assumes "log lib st = (Aborted, st')"
  obtains pre m where "compose lib (screen_shot st) (logComment st) = (pre, Abort m)"
    and "st' = (screen_shot st)\<lparr>shown := shown st @ pre @ [m]\<rparr>"
  using assms unfolding log_def Let_def
  by (auto split: prod.splits result.splits)

lemma py_get_Nil [simp]: "py_get [] i = Inl IndexError"
  by (simp add: py_get_def)

lemma arc_center_Abort:
  "arc_center lib mt a b r = Abort m \<Longrightarrow> m \<noteq> NoPriorPosition t"
  by (auto simp: arc_center_def Let_def raising_def split: if_splits option.splits sum.splits)

lemma move_tokens_Abort:
  assumes "move_tokens lib st mt cp = (pre, Abort m)"
  shows "pre = [] \<and> (\<forall>t. m \<noteq> NoPriorPosition t)"
proof (cases "lastPosition st = []")
  case True
  then show ?thesis using assms
    by (auto simp: move_tokens_def Let_def split: if_splits sum.splits)
next
  case False
  then show ?thesis using assms arc_center_Abort
    by (auto simp: move_tokens_def Let_def
        split: if_splits sum.splits result.splits option.splits prod.splits)
qed

lemma compose_Abort:
  assumes "compose lib st c = (pre, Abort m)"
  shows "pre = [] \<and> (\<forall>t. m \<noteq> NoPriorPosition t)"
proof (cases "moveTypeEnableCB st")
  case False
  then show ?thesis using assms
    by (auto simp: compose_def Let_def split: sum.splits prod.splits)
next
  case True
  then obtain ts cp radio where "move_tokens lib st (gcode_property radio) cp = (pre, Abort m)"
    using assms
    by (auto simp: compose_def Let_def split: sum.splits prod.splits option.splits result.splits)
  then show ?thesis by (rule move_tokens_Abort)
qed

lemma replace_at_row:
  assumes "0 \<le> k" "k < int (length xs)"
  shows "takeItem (insertItem xs k e) (k + 1) = xs[nat k := e]"
proof -
  obtain n where n: "k = int n" "n < length xs"
    using assms by (metis nonneg_int_cases of_nat_less_iff)
  have a: "take (Suc n) (take n xs @ e # drop n xs) = take n xs @ [e]"
    using n by (simp add: min_absorb2)
  have b: "drop (Suc (Suc n)) (take n xs @ e # drop n xs) = drop (Suc n) xs"
    using n by (simp add: min_absorb2)
  have "xs[n := e] = take n xs @ e # drop (Suc n) xs"
    using n by (simp add: upd_conv_take_nth_drop)
  then show ?thesis
    using n a b by (simp add: takeItem_def insertItem_def Let_def nat_add_distrib)
qed

lemma read_axes_values:
  "read_axes lib token lbs as = Inr (ts, xs) \<Longrightarrow>
   map (\<lambda>axis. case lbs ! axis of Some position \<Rightarrow> py_float lib position | None \<Rightarrow> None) as
     = map Some xs"
proof (induction as arbitrary: ts xs)
  case Nil
  then show ?case by simp
next
  case (Cons axis rest)
  then show ?case
    by (auto simp: py_get_def split: sum.splits option.splits if_splits prod.splits)
qed

lemma compose_positions:
  assumes "compose lib st c = (pre, Ok (entry, cp))"
  shows "map (\<lambda>axis. case position_lbs st ! axis of Some position \<Rightarrow> py_float lib position
                     | None \<Rightarrow> None) (checked_axes st) = map Some cp"
proof (cases "moveTypeEnableCB st")
  case False
  then obtain ts where "read_axes lib simple_token (position_lbs st) (checked_axes st) = Inr (ts, cp)"
    using assms by (auto simp: compose_def Let_def split: sum.splits prod.splits)
  then show ?thesis by (rule read_axes_values)
next
  case True
  then obtain ts where "read_axes lib move_token (position_lbs st) (checked_axes st) = Inr (ts, cp)"
    using assms
    by (auto simp: compose_def Let_def split: sum.splits prod.splits option.splits result.splits)
  then show ?thesis by (rule read_axes_values)
qed

section \<open>Runs of \<open>log\<close> on the window at X1 Y2 Z3\<close>

lemma upt9: "[0..<9] = [0, 1, 2, 3, 4, 5, 6, 7, 8]"
  by code_simp

lemmas dec_defs = declib_def dec_float_def dec_unsigned_def is_digit_def digits_val_def dec_format_def
lemmas win_defs = move_window_def window0_def check_feed_arc_radius_def check_lineEdit_def float_of_bool_def

lemma move_window_checked_axes: "checked_axes (move_window b f r) = [0, 1, 2]"
  by (simp add: checked_axes_def move_window_def window0_def check_feed_arc_radius_def upt9)

lemma move_window_position_lbs:
  "position_lbs (move_window b f r) = [Some ''1.000'', Some ''2.000'', Some ''3.000'',
                                  None, None, None, None, None, None]"
  by (simp add: move_window_def window0_def check_feed_arc_radius_def)

lemma read_axes_move:
  "read_axes declib move_token [Some ''1.000'', Some ''2.000'', Some ''3.000'',
                                  None, None, None, None, None, None] [0, 1, 2]
   = Inr ([''X1.000 '', ''Y2.000 '', ''Z3.000 ''], [1, 2, 3])"
  by (simp add: py_get_def move_token_def axes_letters_def dec_defs)

lemma move_window_fields:
  "moveTypeEnableCB (move_window b f r)" "moveTypeGB (move_window b f r) = Some b"
  "lastPosition (move_window b f r) = []" "logToLine (move_window b f r) = None"
  "gcodeLW (move_window b f r) = []" "shown (move_window b f r) = []"
  "feedLE (move_window b f r) = f" "arcRadiusLE (move_window b f r) = r"
  "logCommentLE (move_window b f r) = []" "\<not> screenShotEnableCB (move_window b f r)"
  by (simp_all add: move_window_def window0_def check_feed_arc_radius_def)

lemma compose_move_window:
  "compose declib (move_window b f r) c =
     (case move_tokens declib (move_window b f r) (gcode_property b) [1, 2, 3] of
        (pre, Abort m) \<Rightarrow> (pre, Abort m)
      | (pre, Raise e) \<Rightarrow> (pre, Raise e)
      | (pre, Ok extra) \<Rightarrow>
          (pre, Ok (concat ([gcode_property b @ '' '', ''X1.000 '', ''Y2.000 '', ''Z3.000 ''] @ extra),
                    [1, 2, 3])))"
  unfolding compose_def move_window_checked_axes move_window_position_lbs read_axes_move Let_def
  by (simp add: move_window_fields cong del: prod.case_cong_weak result.case_cong_weak)

lemma styles_g2: "feedLE_styleSheet (move_window g2RB ''100'' ''5'') = ''background: white;''"
  "arcRadiusLE_styleSheet (move_window g2RB ''100'' ''5'') = ''background: white;''"
  by (simp_all add: win_defs dec_defs)

lemma move_tokens_g2:
  "move_tokens declib (move_window g2RB ''100'' ''5'') ''G2'' [1, 2, 3]
     = ([NoPriorPosition ''G2''], Raise IndexError)"
  by (simp add: move_tokens_def styles_g2 move_window_fields py_get_def Let_def)

text \<open>
  C1. At the first arc of a session \<open>lastPosition\<close> is empty. With the move type G2, a
  feed rate of 100 and a radius of 5, both accepted by \<open>check_feed_arc_radius\<close>, \<open>log\<close>
  shows the message for the missing prior position and, with no \<open>return\<close> after the
  message box, goes on to \<open>self.lastPosition[0]\<close>: the attempt ends in an IndexError
  that \<open>log\<close> does not catch. The list of entries is as before.
\<close>

theorem log_arc_without_prior_position:
  "lastPosition (move_window g2RB ''100'' ''5'') = []
   \<and> log declib (move_window g2RB ''100'' ''5'')
       = (Raised IndexError, (move_window g2RB ''100'' ''5'')\<lparr>shown := [NoPriorPosition ''G2'']\<rparr>)"
  by (simp add: log_def screen_shot_def compose_move_window move_tokens_g2 move_window_fields Let_def)

lemma styles_g1: "feedLE_styleSheet (move_window g1RB ''0'' []) = ''background: white;''"
  by (simp_all add: win_defs dec_defs)

lemma move_tokens_g1:
  "move_tokens declib (move_window g1RB ''0'' []) ''G1'' [1, 2, 3] = ([], Ok [''F0''])"
  by (simp add: move_tokens_def styles_g1 move_window_fields Let_def)

lemma log_g1_zero:
  "log declib (move_window g1RB ''0'' [])
     = (Logged, (move_window g1RB ''0'' [])\<lparr>shown := [],
          gcodeLW := [''G1 X1.000 Y2.000 Z3.000 F0''], lastPosition := [1, 2, 3],
          logToLine := None\<rparr>)"
  by (simp add: log_def screen_shot_def compose_move_window move_tokens_g1 move_window_fields
      log_insert_def Let_def)

text \<open>
  C3. A feed rate of 0 is not positive, yet \<open>check_lineEdit\<close> gives the text '0' the
  white background, and \<open>log\<close> with the move type G1 adds the entry with the token F0
  and shows no message.
\<close>

theorem log_zero_feed_rate:
  "dec_float ''0'' = Some 0
   \<and> check_lineEdit declib ''0'' = ''background: white;''
   \<and> fst (log declib (move_window g1RB ''0'' [])) = Logged
   \<and> gcodeLW (snd (log declib (move_window g1RB ''0'' []))) = [''G1 X1.000 Y2.000 Z3.000 F0'']"
  unfolding log_g1_zero
  by (simp add: check_lineEdit_def float_of_bool_def dec_defs)

section \<open>The entry at the cursor\<close>

lemmas no_weak_cong = if_weak_cong prod.case_cong_weak sum.case_cong_weak result.case_cong_weak
  option.case_cong_weak

text \<open>The fields of the window that \<open>compose\<close> reads.\<close>

lemma compose_fields:
  assumes "axis_cbs a = axis_cbs b" "position_lbs a = position_lbs b"
    and "moveTypeEnableCB a = moveTypeEnableCB b" "moveTypeGB a = moveTypeGB b"
    and "feedLE a = feedLE b" "feedLE_styleSheet a = feedLE_styleSheet b"
    and "arcRadiusLE a = arcRadiusLE b" "arcRadiusLE_styleSheet a = arcRadiusLE_styleSheet b"
    and "lastPosition a = lastPosition b" "precisionSB a = precisionSB b"
    and "logCommentLE a = logCommentLE b"
  shows "compose lib a c = compose lib b c"
  using assms
  by (simp add: compose_def move_tokens_def checked_axes_def cong del: no_weak_cong)

lemma log_insert_fields [simp]:
  "logToLine (log_insert st e cp) = None" "lastPosition (log_insert st e cp) = cp"
  "gcodeLW (log_insert st e cp) =
     (case logToLine st of
        Some row \<Rightarrow> takeItem (insertItem (gcodeLW st) row e) (row + 1)
      | None \<Rightarrow> gcodeLW st @ [e])"
  by (simp_all add: log_insert_def)

lemma log_appends:
  assumes "logToLine st = None" "log lib st = (Logged, st')"
  shows "\<exists>e. gcodeLW st' = gcodeLW st @ [e]"
  using assms(2) by (rule log_Logged) (simp add: assms(1))

text \<open>
  C9. For every window, every list of entries and every row \<open>k\<close> of the list: when \<open>log\<close>
  succeeds after 'Log to this Line' on row \<open>k\<close>, the list has the length it had, row \<open>k\<close>
  holds the new entry, which is the entry that \<open>log\<close> without the cursor appends, every
  other row is as before, and the cursor is cleared, so that a further successful \<open>log\<close>
  appends its entry.
\<close>

theorem log_replaces_at_cursor:
  assumes "0 \<le> k" "k < int (length (gcodeLW st))"
    and "log lib (setCursor k st) = (Logged, st')"
  shows "\<exists>entry. gcodeLW st' = (gcodeLW st)[nat k := entry]
           \<and> length (gcodeLW st') = length (gcodeLW st)
           \<and> gcodeLW st' ! nat k = entry
           \<and> (\<forall>i < length (gcodeLW st). i \<noteq> nat k \<longrightarrow> gcodeLW st' ! i = gcodeLW st ! i)
           \<and> logToLine st' = None
           \<and> (\<exists>st1. log lib (st\<lparr>logToLine := None\<rparr>) = (Logged, st1)
                  \<and> gcodeLW st1 = gcodeLW st @ [entry])
           \<and> (\<forall>st2. log lib st' = (Logged, st2) \<longrightarrow> (\<exists>e. gcodeLW st2 = gcodeLW st' @ [e]))"
proof -
  from assms(3) obtain pre entry cp
    where c: "compose lib (screen_shot (setCursor k st)) (logComment (setCursor k st))
                = (pre, Ok (entry, cp))"
      and s: "st' = log_insert ((screen_shot (setCursor k st))\<lparr>shown := shown (setCursor k st) @ pre\<rparr>)
                      entry cp"
    by (rule log_Logged)
  have c': "compose lib (screen_shot st) (logComment st) = (pre, Ok (entry, cp))"
    using c by (simp add: setCursor_def screen_shot_logToLine)
  have g: "gcodeLW st' = (gcodeLW st)[nat k := entry]"
    unfolding s by (simp add: setCursor_def screen_shot_logToLine replace_at_row [OF assms(1,2)])
  have n: "logToLine st' = None" unfolding s by simp
  have k: "nat k < length (gcodeLW st)" using assms(1,2) by simp
  have a: "log lib (st\<lparr>logToLine := None\<rparr>)
             = (Logged, log_insert ((screen_shot st)\<lparr>logToLine := None, shown := shown st @ pre\<rparr>)
                          entry cp)"
    by (simp add: log_def Let_def screen_shot_logToLine c')
  have b: "\<forall>st2. log lib st' = (Logged, st2) \<longrightarrow> (\<exists>e. gcodeLW st2 = gcodeLW st' @ [e])"
    using log_appends [OF n] by blast
  show ?thesis
    using g n k a b by (intro exI [of _ entry]) simp
qed

lemma move_tokens_g0:
  "move_tokens declib (move_window g0RB [] []) ''G0'' [1, 2, 3] = ([], Ok [])"
  by (simp add: move_tokens_def)

lemma compose_cursor_window:
  "compose declib (setCursor 1 cursor_window) c = ([], Ok (''G0 X1.000 Y2.000 Z3.000 '', [1, 2, 3]))"
proof -
  have "compose declib (setCursor 1 cursor_window) c = compose declib (move_window g0RB [] []) c"
    by (rule compose_fields) (simp_all add: setCursor_def cursor_window_def)
  then show ?thesis
    by (simp add: compose_move_window move_tokens_g0)
qed

lemma cursor_window_fields:
  "screen_shot (setCursor 1 cursor_window) = setCursor 1 cursor_window"
  "shown (setCursor 1 cursor_window) = []"
  "logToLine (setCursor 1 cursor_window) = Some 1"
  "gcodeLW (setCursor 1 cursor_window) = [''G0 X4.000 '', ''G0 X5.000 '', ''G0 X6.000 '']"
  "gcodeLW cursor_window = [''G0 X4.000 '', ''G0 X5.000 '', ''G0 X6.000 '']"
  by (simp_all add: screen_shot_def setCursor_def cursor_window_def move_window_fields)

lemma log_cursor_window:
  "log declib (setCursor 1 cursor_window)
     = (Logged, log_insert ((setCursor 1 cursor_window)\<lparr>shown := []\<rparr>)
                  ''G0 X1.000 Y2.000 Z3.000 '' [1, 2, 3])"
  by (simp add: log_def cursor_window_fields compose_cursor_window)

theorem log_replaces_at_cursor_witness:
  "(0::int) \<le> 1 \<and> 1 < int (length (gcodeLW cursor_window))
   \<and> fst (log declib (setCursor 1 cursor_window)) = Logged
   \<and> gcodeLW (snd (log declib (setCursor 1 cursor_window)))
       = [''G0 X4.000 '', ''G0 X1.000 Y2.000 Z3.000 '', ''G0 X6.000 '']
   \<and> length (gcodeLW (snd (log declib (setCursor 1 cursor_window)))) = length (gcodeLW cursor_window)
   \<and> logToLine (snd (log declib (setCursor 1 cursor_window))) = None"
proof -
  have k: "(0::int) \<le> 1" "1 < int (length (gcodeLW cursor_window))"
    by (simp_all add: cursor_window_fields)
  note r = log_replaces_at_cursor [OF k log_cursor_window]
  from r have n: "length (gcodeLW (snd (log declib (setCursor 1 cursor_window))))
                    = length (gcodeLW cursor_window)"
    "logToLine (snd (log declib (setCursor 1 cursor_window))) = None"
    unfolding log_cursor_window snd_conv by blast+
  have g: "gcodeLW (snd (log declib (setCursor 1 cursor_window)))
             = [''G0 X4.000 '', ''G0 X1.000 Y2.000 Z3.000 '', ''G0 X6.000 '']"
    unfolding log_cursor_window
    by (simp add: cursor_window_fields insertItem_def takeItem_def)
  have f: "fst (log declib (setCursor 1 cursor_window)) = Logged"
    unfolding log_cursor_window by simp
  from k f g n show ?thesis by blast
qed

section \<open>An attempt that ends in a message\<close>

lemma str_nat_thousands:
  "str_nat 1000 = ''1000''" "str_nat 2000 = ''2000''" "str_nat 3000 = ''3000''"
  by (simp_all add: str_nat.simps)

lemma format_123:
  "format_f declib 3 1 = ''1.000''" "format_f declib 3 2 = ''2.000''"
  "format_f declib 3 3 = ''3.000''"
  by (simp_all add: declib_def dec_format_def Let_def str_nat_thousands)

lemma display_din: "display din_window din_high = [1, 2, 3, 0, 0, 0, 0, 0, 0]"
  by (simp add: display_def din_high_def stat0_def din_window_def move_window_def
      window0_def check_feed_arc_radius_def)

lemma din_window_labels:
  "position_lbs din_window = [Some ''1.000'', Some ''2.000'', Some ''3.000'',
                                  None, None, None, None, None, None]"
  "axes din_window = [0, 1, 2]" "precisionSB din_window = 3"
  by (simp_all add: din_window_def move_window_def window0_def check_feed_arc_radius_def)

lemma set_labels_din:
  "set_labels declib 3 [1, 2, 3, 0, 0, 0, 0, 0, 0] [0, 1, 2]
     [Some ''1.000'', Some ''2.000'', Some ''3.000'', None, None, None, None, None, None]
   = (None, [Some ''1.000'', Some ''2.000'', Some ''3.000'', None, None, None, None, None, None])"
  by (simp add: py_get_def format_123)

lemma label_phase_din:
  "label_phase declib din_high din_window = (None, din_window)"
  unfolding label_phase_def display_din din_window_labels set_labels_din
  by (simp add: din_window_labels [symmetric])

lemma move_tokens_no_feed:
  "move_tokens declib (move_window g1RB [] []) ''G1'' [1, 2, 3] = ([], Abort (MissingFeedRate ''G1''))"
  by (simp add: move_tokens_def move_window_def window0_def check_feed_arc_radius_def
      check_lineEdit_def Let_def)

lemma compose_no_feed:
  "compose declib (move_window g1RB [] []) c = ([], Abort (MissingFeedRate ''G1''))"
  by (simp add: compose_move_window move_tokens_no_feed)

lemma log_din_window:
  "log declib din_window = (Aborted, din_window\<lparr>shown := [MissingFeedRate ''G1'']\<rparr>)"
proof -
  have c: "compose declib din_window c = compose declib (move_window g1RB [] []) c" for c
    by (rule compose_fields) (simp_all add: din_window_def)
  have s: "screen_shot din_window = din_window" "shown din_window = []"
    by (simp_all add: screen_shot_def din_window_def move_window_fields)
  show ?thesis
    by (simp add: log_def s c compose_no_feed)
qed

lemma din_window_channels:
  "dinLogic din_window = ''true''" "dinCB din_window" "\<not> dinLog din_window"
  "doutLogic din_window = ''true''" "\<not> doutCB din_window" "\<not> doutLog din_window"
  "ainOnLogic din_window = ''<''" "ainOnValue din_window = 0" "ainOffValue din_window = 0"
  "aoutOnLogic din_window = ''<''" "aoutOnValue din_window = 0" "aoutOffValue din_window = 0"
  "\<not> ainLog din_window" "\<not> aoutLog din_window" "gcodeLW din_window = []"
  by (simp_all add: din_window_def move_window_def window0_def check_feed_arc_radius_def)

lemma din_high_signals: "din din_high i" "\<not> dout din_high i"
  by (simp_all add: din_high_def stat0_def)

lemma din_phase_din:
  "din_phase declib din_high din_window
     = (None, din_window\<lparr>shown := [MissingFeedRate ''G1''], dinLog := True\<rparr>)"
  by (simp add: din_phase_def digital_edge_def din_window_channels din_high_signals log_then_def
      log_din_window)

text \<open>
  C7, as stated, fails for the latch. The digital input is enabled and on, its latch is
  off, the move type is G1 and no feed rate is entered: the attempt of \<open>log\<close> ends in the
  message for the missing feed rate, no entry is added, and the tick of \<open>update\<close> that
  made the attempt leaves the latch of the channel on.
\<close>

theorem update_sets_latch_on_error:
  "log declib din_window = (Aborted, din_window\<lparr>shown := [MissingFeedRate ''G1'']\<rparr>)
   \<and> dinLog din_window = False
   \<and> fst (update declib din_high din_window) = None
   \<and> dinLog (snd (update declib din_high din_window)) = True
   \<and> gcodeLW (snd (update declib din_high din_window)) = []
   \<and> shown (snd (update declib din_high din_window)) = [MissingFeedRate ''G1'']"
  by (simp add: update_def and_then_def label_phase_din din_phase_din dout_phase_def ain_phase_def
      aout_phase_def digital_edge_def analog_edge_def din_window_channels din_high_signals
      log_din_window)

lemma log_Aborted_state:
  assumes "log lib st = (Aborted, st')"
  obtains m where "st' = (screen_shot st)\<lparr>shown := shown st @ [m]\<rparr>" "\<forall>t. m \<noteq> NoPriorPosition t"
proof -
  from assms obtain pre m
    where c: "compose lib (screen_shot st) (logComment st) = (pre, Abort m)"
      and s: "st' = (screen_shot st)\<lparr>shown := shown st @ pre @ [m]\<rparr>"
    by (rule log_Aborted)
  from compose_Abort [OF c] s that show thesis by simp
qed

text \<open>
  C7, amended. For every window and every attempt of \<open>log\<close> that ends in a message box
  followed by \<open>return\<close> (a missing feed rate, a missing arc radius, an arc to its own
  start point, a radius too small; the message for the missing prior position is not one
  of them): the attempt shows that one message and leaves the entries, the prescript, the
  postscript, the cursor, \<open>lastPosition\<close> and the four latches as they were. \<open>update\<close>,
  which cannot tell such an attempt from a successful one, then sets the latch of the
  channel that made the attempt: the phase of each channel that fires ends the tick
  without an exception, in the window of the attempt with the latch of that channel on.
\<close>

theorem log_abort_leaves_document:
  assumes "log lib st = (Aborted, st')"
  shows "gcodeLW st' = gcodeLW st \<and> prescriptLW st' = prescriptLW st
         \<and> postscriptLW st' = postscriptLW st \<and> logToLine st' = logToLine st
         \<and> lastPosition st' = lastPosition st
         \<and> dinLog st' = dinLog st \<and> doutLog st' = doutLog st
         \<and> ainLog st' = ainLog st \<and> aoutLog st' = aoutLog st
         \<and> (\<exists>m. shown st' = shown st @ [m] \<and> (\<forall>t. m \<noteq> NoPriorPosition t))
         \<and> (fst (digital_edge (dinLogic st) (din s (dinInput st)) (dinCB st) (dinLog st))
              \<longrightarrow> din_phase lib s st = (None, st'\<lparr>dinLog := True\<rparr>))
         \<and> (fst (digital_edge (doutLogic st) (dout s (doutInput st)) (doutCB st) (doutLog st))
              \<longrightarrow> dout_phase lib s st = (None, st'\<lparr>doutLog := True\<rparr>))
         \<and> (fst (analog_edge (ainOnLogic st) (ainOnValue st) (ainOffValue st)
                    (ain s (ainInput st)) (ainCB st) (ainLog st))
              \<longrightarrow> ain_phase lib s st
                    = (None, st'\<lparr>ainLog := True, ainOnValue_styleSheet := ''background: white;'',
                                 ainOffValue_styleSheet := ''background: white;''\<rparr>))
         \<and> (fst (analog_edge (aoutOnLogic st) (aoutOnValue st) (aoutOffValue st)
                    (aout s (aoutInput st)) (aoutCB st) (aoutLog st))
              \<longrightarrow> aout_phase lib s st
                    = (None, st'\<lparr>aoutLog := True, aoutOnValue_styleSheet := ''background: white;'',
                                 aoutOffValue_styleSheet := ''background: white;''\<rparr>))"
proof -
  from assms obtain m
    where s: "st' = (screen_shot st)\<lparr>shown := shown st @ [m]\<rparr>" and m: "\<forall>t. m \<noteq> NoPriorPosition t"
    by (rule log_Aborted_state)
  have d: "fst (digital_edge l v e x) \<Longrightarrow> digital_edge l v e x = (True, True)" for l v e x
    by (auto simp: digital_edge_def split: if_splits)
  have a: "fst (analog_edge l on off v e x)
             \<Longrightarrow> analog_edge l on off v e x = (True, True, ''background: white;'')" for l on off v e x
    by (auto simp: analog_edge_def split: if_splits)
  have 1: "gcodeLW st' = gcodeLW st \<and> prescriptLW st' = prescriptLW st
         \<and> postscriptLW st' = postscriptLW st \<and> logToLine st' = logToLine st
         \<and> lastPosition st' = lastPosition st
         \<and> dinLog st' = dinLog st \<and> doutLog st' = doutLog st
         \<and> ainLog st' = ainLog st \<and> aoutLog st' = aoutLog st"
    unfolding s by simp
  have 2: "\<exists>m. shown st' = shown st @ [m] \<and> (\<forall>t. m \<noteq> NoPriorPosition t)"
    unfolding s using m by simp
  have 3: "fst (digital_edge (dinLogic st) (din s (dinInput st)) (dinCB st) (dinLog st))
              \<longrightarrow> din_phase lib s st = (None, st'\<lparr>dinLog := True\<rparr>)"
    by (auto simp: din_phase_def log_then_def assms dest!: d)
  have 4: "fst (digital_edge (doutLogic st) (dout s (doutInput st)) (doutCB st) (doutLog st))
              \<longrightarrow> dout_phase lib s st = (None, st'\<lparr>doutLog := True\<rparr>)"
    by (auto simp: dout_phase_def log_then_def assms dest!: d)
  have 5: "fst (analog_edge (ainOnLogic st) (ainOnValue st) (ainOffValue st)
                    (ain s (ainInput st)) (ainCB st) (ainLog st))
              \<longrightarrow> ain_phase lib s st
                    = (None, st'\<lparr>ainLog := True, ainOnValue_styleSheet := ''background: white;'',
                                 ainOffValue_styleSheet := ''background: white;''\<rparr>)"
    by (auto simp: ain_phase_def log_then_def assms dest!: a)
  have 6: "fst (analog_edge (aoutOnLogic st) (aoutOnValue st) (aoutOffValue st)
                    (aout s (aoutInput st)) (aoutCB st) (aoutLog st))
              \<longrightarrow> aout_phase lib s st
                    = (None, st'\<lparr>aoutLog := True, aoutOnValue_styleSheet := ''background: white;'',
                                 aoutOffValue_styleSheet := ''background: white;''\<rparr>)"
    by (auto simp: aout_phase_def log_then_def assms dest!: a)
  from 1 2 3 4 5 6 show ?thesis by blast
qed

lemma log_armed_window:
  "log declib armed_window = (Aborted, armed_window\<lparr>shown := [MissingFeedRate ''G1'']\<rparr>)"
proof -
  have c: "compose declib armed_window c = compose declib (move_window g1RB [] []) c" for c
    by (rule compose_fields) (simp_all add: armed_window_def)
  have s: "screen_shot armed_window = armed_window" "shown armed_window = []"
    by (simp_all add: screen_shot_def armed_window_def move_window_fields)
  show ?thesis
    by (simp add: log_def s c compose_no_feed)
qed

lemma armed_window_edges:
  "fst (digital_edge (dinLogic armed_window) (din high_stat (dinInput armed_window))
          (dinCB armed_window) (dinLog armed_window))"
  "fst (digital_edge (doutLogic armed_window) (dout high_stat (doutInput armed_window))
          (doutCB armed_window) (doutLog armed_window))"
  "fst (analog_edge (ainOnLogic armed_window) (ainOnValue armed_window) (ainOffValue armed_window)
          (ain high_stat (ainInput armed_window)) (ainCB armed_window) (ainLog armed_window))"
  "fst (analog_edge (aoutOnLogic armed_window) (aoutOnValue armed_window) (aoutOffValue armed_window)
          (aout high_stat (aoutInput armed_window)) (aoutCB armed_window) (aoutLog armed_window))"
  by (simp_all add: digital_edge_def analog_edge_def armed_window_def high_stat_def stat0_def
      move_window_def window0_def check_feed_arc_radius_def)

theorem log_abort_leaves_document_witness:
  "log declib armed_window = (Aborted, armed_window\<lparr>shown := [MissingFeedRate ''G1'']\<rparr>)
   \<and> fst (digital_edge (dinLogic armed_window) (din high_stat (dinInput armed_window))
            (dinCB armed_window) (dinLog armed_window))
   \<and> fst (digital_edge (doutLogic armed_window) (dout high_stat (doutInput armed_window))
            (doutCB armed_window) (doutLog armed_window))
   \<and> fst (analog_edge (ainOnLogic armed_window) (ainOnValue armed_window) (ainOffValue armed_window)
            (ain high_stat (ainInput armed_window)) (ainCB armed_window) (ainLog armed_window))
   \<and> fst (analog_edge (aoutOnLogic armed_window) (aoutOnValue armed_window) (aoutOffValue armed_window)
            (aout high_stat (aoutInput armed_window)) (aoutCB armed_window) (aoutLog armed_window))
   \<and> gcodeLW (armed_window\<lparr>shown := [MissingFeedRate ''G1'']\<rparr>) = gcodeLW armed_window
   \<and> dinLog (armed_window\<lparr>shown := [MissingFeedRate ''G1'']\<rparr>) = dinLog armed_window
   \<and> din_phase declib high_stat armed_window
       = (None, armed_window\<lparr>shown := [MissingFeedRate ''G1''], dinLog := True\<rparr>)
   \<and> dout_phase declib high_stat armed_window
       = (None, armed_window\<lparr>shown := [MissingFeedRate ''G1''], doutLog := True\<rparr>)
   \<and> ain_phase declib high_stat armed_window
       = (None, armed_window\<lparr>shown := [MissingFeedRate ''G1''], ainLog := True,
                  ainOnValue_styleSheet := ''background: white;'',
                  ainOffValue_styleSheet := ''background: white;''\<rparr>)
   \<and> aout_phase declib high_stat armed_window
       = (None, armed_window\<lparr>shown := [MissingFeedRate ''G1''], aoutLog := True,
                  aoutOnValue_styleSheet := ''background: white;'',
                  aoutOffValue_styleSheet := ''background: white;''\<rparr>)"
proof -
  note r = log_abort_leaves_document [OF log_armed_window, of high_stat]
  from r log_armed_window armed_window_edges show ?thesis by blast
qed

section \<open>The positions of an arc and \<open>lastPosition\<close>\<close>

lemma arc_center_sample: "arc_center declib ''G2'' (- 8, 3) (2, 3) (Some 5) = Ok (Some (5, 0))"
  by (simp add: arc_center_def declib_ops Let_def)

lemma str_nat_sample: "str_nat 5000 = ''5000''" "str_nat 0 = ''0''"
  by (simp_all add: str_nat.simps)

lemma format_sample: "format_f declib 3 5 = ''5.000''" "format_f declib 3 0 = ''0.000''"
  by (simp_all add: declib_def dec_format_def Let_def str_nat_sample numeral_2_eq_2)

lemma py_float_sample: "py_float declib ''5'' = Some 5"
  by (simp add: dec_defs)

lemma yz_arc_window_fields:
  "checked_axes yz_arc_window = [1, 2]"
  "position_lbs yz_arc_window = [Some ''1.000'', Some ''2.000'', Some ''3.000'',
                                   None, None, None, None, None, None]"
  "moveTypeEnableCB yz_arc_window" "moveTypeGB yz_arc_window = Some g2RB"
  "logCommentLE yz_arc_window = []" "screen_shot yz_arc_window = yz_arc_window"
  "shown yz_arc_window = []" "precisionSB yz_arc_window = 3"
  "feedLE yz_arc_window = ''100''" "arcRadiusLE yz_arc_window = ''5''"
  "lastPosition yz_arc_window = [- 8, 3]"
  "feedLE_styleSheet yz_arc_window = ''background: white;''"
  "arcRadiusLE_styleSheet yz_arc_window = ''background: white;''"
  "axis_cbs yz_arc_window
     = [Some False, Some True, Some True, None, None, None, None, None, None]"
  "logComment yz_arc_window = []" "logToLine yz_arc_window = None"
  "gcodeLW yz_arc_window = []"
  by (simp_all add: yz_arc_window_def checked_axes_def screen_shot_def logComment_def styles_g2
      move_window_position_lbs move_window_fields upt9)
    (simp_all add: move_window_def window0_def check_feed_arc_radius_def)

lemma read_axes_yz:
  "read_axes declib move_token [Some ''1.000'', Some ''2.000'', Some ''3.000'',
                                None, None, None, None, None, None] [1, 2]
   = Inr ([''Y2.000 '', ''Z3.000 ''], [2, 3])"
  by (simp add: py_get_def move_token_def axes_letters_def dec_defs)

lemma move_tokens_yz_arc_window:
  "move_tokens declib yz_arc_window ''G2'' [2, 3] = ([], Ok [''F100'', '' I5.000 J0.000''])"
  by (simp add: move_tokens_def yz_arc_window_fields py_get_def Let_def arc_center_sample
      py_float_sample format_sample)

lemma compose_yz_arc_window:
  "compose declib yz_arc_window [] = ([], Ok (''G2 Y2.000 Z3.000 F100 I5.000 J0.000'', [2, 3]))"
  unfolding compose_def yz_arc_window_fields(1,2) read_axes_yz Let_def
  by (simp add: yz_arc_window_fields move_tokens_yz_arc_window
      cong del: prod.case_cong_weak result.case_cong_weak)

lemma log_yz_arc_window:
  "log declib yz_arc_window
     = (Logged, log_insert (yz_arc_window\<lparr>shown := []\<rparr>)
                  ''G2 Y2.000 Z3.000 F100 I5.000 J0.000'' [2, 3])"
  by (simp add: log_def yz_arc_window_fields compose_yz_arc_window)

text \<open>
  C10. The check box of X is unchecked and the labels show X 1.000, Y 2.000 and Z 3.000;
  \<open>lastPosition\<close> is \<open>[-8, 3]\<close>, the positions of Y and Z at the entry before, as \<open>log\<close>
  left them. \<open>log\<close> with the move type G2 and the radius 5 takes \<open>dx\<close> from the positions
  of Y (from -8 to 2) and \<open>dy\<close> from the positions of Z (3 and 3): the entry ends the arc
  at Y2 Z3 with the offsets I5.000 J0.000, which are those of the X and Y axes, and
  \<open>lastPosition\<close> becomes \<open>[2, 3]\<close>, again the positions of Y and Z. The position of X
  enters neither.
\<close>

theorem log_arc_with_X_unchecked:
  "axis_cbs yz_arc_window ! 0 = Some False
   \<and> position_lbs yz_arc_window ! 0 = Some ''1.000''
   \<and> position_lbs yz_arc_window ! 1 = Some ''2.000''
   \<and> position_lbs yz_arc_window ! 2 = Some ''3.000''
   \<and> lastPosition yz_arc_window = [- 8, 3]
   \<and> fst (log declib yz_arc_window) = Logged
   \<and> gcodeLW (snd (log declib yz_arc_window)) = [''G2 Y2.000 Z3.000 F100 I5.000 J0.000'']
   \<and> lastPosition (snd (log declib yz_arc_window)) = [2, 3]"
  unfolding log_yz_arc_window
  by (simp add: yz_arc_window_fields)

section \<open>The ticks of \<open>update\<close>\<close>

text \<open>The fields of the window that a call of \<open>log\<close> can change.\<close>

lemma log_shape:
  "\<exists>g lp ll sh ix. snd (log lib st)
      = st\<lparr>gcodeLW := g, lastPosition := lp, logToLine := ll, shown := sh, imgFileIndexSB := ix\<rparr>"
proof -
  have "\<exists>ix. screen_shot st = st\<lparr>imgFileIndexSB := ix\<rparr>"
  proof (cases "screenShotEnableCB st \<and> autoIncrementCB st")
    case True
    then show ?thesis by (auto simp: screen_shot_def snipFull_def)
  next
    case False
    then have "screen_shot st = st\<lparr>imgFileIndexSB := imgFileIndexSB st\<rparr>"
      by (auto simp: screen_shot_def snipFull_def)
    then show ?thesis by blast
  qed
  then obtain ix where ix: "screen_shot st = st\<lparr>imgFileIndexSB := ix\<rparr>" by blast
  show ?thesis
  proof (cases "compose lib (screen_shot st) (logComment st)")
    case (Pair pre r)
    show ?thesis
    proof (cases r)
      case (Ok x)
      obtain entry cp where x: "x = (entry, cp)" by (cases x)
      have "snd (log lib st)
              = st\<lparr>gcodeLW := gcodeLW (log_insert ((screen_shot st)\<lparr>shown := shown st @ pre\<rparr>)
                                           entry cp),
                   lastPosition := cp, logToLine := None, shown := shown st @ pre,
                   imgFileIndexSB := ix\<rparr>"
        using Pair Ok x by (simp add: log_def Let_def log_insert_def ix)
      then show ?thesis by blast
    next
      case (Abort m)
      have "snd (log lib st)
              = st\<lparr>gcodeLW := gcodeLW st, lastPosition := lastPosition st,
                   logToLine := logToLine st, shown := shown st @ pre @ [m],
                   imgFileIndexSB := ix\<rparr>"
        using Pair Abort by (simp add: log_def Let_def ix)
      then show ?thesis by blast
    next
      case (Raise e)
      have "snd (log lib st)
              = st\<lparr>gcodeLW := gcodeLW st, lastPosition := lastPosition st,
                   logToLine := logToLine st, shown := shown st @ pre,
                   imgFileIndexSB := ix\<rparr>"
        using Pair Raise by (simp add: log_def Let_def ix)
      then show ?thesis by blast
    qed
  qed
qed

text \<open>
  A call of \<open>log\<close> from \<open>update\<close>: the latch is assigned when \<open>log\<close> returns, and is as before
  when \<open>log\<close> raises an exception.
\<close>

lemma log_then_None:
  assumes "log_then lib assign st = (None, st')"
  shows "st' = assign (snd (log lib st))"
  using assms by (auto simp: log_then_def split: prod.splits outcome.splits)

lemma log_then_Some:
  assumes "log_then lib assign st = (Some e, st')"
  shows "st' = snd (log lib st)"
  using assms by (auto simp: log_then_def split: prod.splits outcome.splits)

lemma digital_edge_fires: "fst (digital_edge l v e x) \<Longrightarrow> snd (digital_edge l v e x) = True \<and> \<not> x"
  by (auto simp: digital_edge_def split: if_splits)

lemma din_phase_cases:
  assumes "din_phase lib s st = (r, st')"
  shows "\<exists>g lp ll sh ix d. st' = st\<lparr>gcodeLW := g, lastPosition := lp, logToLine := ll,
            shown := sh, imgFileIndexSB := ix, dinLog := d\<rparr>
          \<and> (r = None \<longrightarrow> d = snd (digital_edge (dinLogic st) (din s (dinInput st)) (dinCB st)
                                        (dinLog st)))
          \<and> (r \<noteq> None \<longrightarrow> d = dinLog st)"
proof (cases "fst (digital_edge (dinLogic st) (din s (dinInput st)) (dinCB st) (dinLog st))")
  case False
  then have "r = None" "st' = st\<lparr>gcodeLW := gcodeLW st, lastPosition := lastPosition st,
       logToLine := logToLine st, shown := shown st, imgFileIndexSB := imgFileIndexSB st,
       dinLog := snd (digital_edge (dinLogic st) (din s (dinInput st)) (dinCB st) (dinLog st))\<rparr>"
    using assms by (auto simp: din_phase_def split: prod.splits)
  then show ?thesis by blast
next
  case True
  note l = digital_edge_fires [OF True]
  from log_shape [of lib st] obtain g lp ll sh ix
    where sh: "snd (log lib st) = st\<lparr>gcodeLW := g, lastPosition := lp, logToLine := ll,
                 shown := sh, imgFileIndexSB := ix\<rparr>"
    by blast
  have p: "log_then lib (\<lambda>st'. st'\<lparr>dinLog := True\<rparr>) st = (r, st')"
    using assms True l by (auto simp: din_phase_def split: prod.splits)
  show ?thesis
  proof (cases r)
    case None
    have "st' = (snd (log lib st))\<lparr>dinLog := True\<rparr>"
      using log_then_None [OF p [unfolded None]] .
    then have f: "st' = st\<lparr>gcodeLW := g, lastPosition := lp, logToLine := ll,
                 shown := sh, imgFileIndexSB := ix, dinLog := True\<rparr>"
      unfolding sh .
    show ?thesis
    proof (intro exI conjI impI)
      show "st' = st\<lparr>gcodeLW := g, lastPosition := lp, logToLine := ll,
                 shown := sh, imgFileIndexSB := ix, dinLog := True\<rparr>"
        by (fact f)
      show "True = snd (digital_edge (dinLogic st) (din s (dinInput st)) (dinCB st) (dinLog st))"
        by (rule l [THEN conjunct1, symmetric])
      show "True = dinLog st" if "r \<noteq> None"
        using that None by simp
    qed
  next
    case (Some e)
    have "st' = snd (log lib st)"
      using log_then_Some [OF p [unfolded Some]] .
    then have "st' = st\<lparr>gcodeLW := g, lastPosition := lp, logToLine := ll,
                 shown := sh, imgFileIndexSB := ix\<rparr>"
      unfolding sh .
    moreover have "st\<lparr>gcodeLW := g, lastPosition := lp, logToLine := ll,
                 shown := sh, imgFileIndexSB := ix\<rparr>
          = st\<lparr>gcodeLW := g, lastPosition := lp, logToLine := ll,
                 shown := sh, imgFileIndexSB := ix, dinLog := dinLog st\<rparr>"
      by simp
    ultimately have f: "st' = st\<lparr>gcodeLW := g, lastPosition := lp, logToLine := ll,
                 shown := sh, imgFileIndexSB := ix, dinLog := dinLog st\<rparr>"
      by (rule trans)
    show ?thesis
    proof (intro exI conjI impI)
      show "st' = st\<lparr>gcodeLW := g, lastPosition := lp, logToLine := ll,
                 shown := sh, imgFileIndexSB := ix, dinLog := dinLog st\<rparr>"
        by (fact f)
      show "dinLog st = snd (digital_edge (dinLogic st) (din s (dinInput st)) (dinCB st)
                               (dinLog st))" if "r = None"
        using that Some by simp
      show "dinLog st = dinLog st" ..
    qed
  qed
qed

lemma dout_phase_cases:
  assumes "dout_phase lib s st = (r, st')"
  shows "\<exists>g lp ll sh ix d. st' = st\<lparr>gcodeLW := g, lastPosition := lp, logToLine := ll,
            shown := sh, imgFileIndexSB := ix, doutLog := d\<rparr>
          \<and> (r = None \<longrightarrow> d = snd (digital_edge (doutLogic st) (dout s (doutInput st)) (doutCB st)
                                        (doutLog st)))
          \<and> (r \<noteq> None \<longrightarrow> d = doutLog st)"
proof (cases "fst (digital_edge (doutLogic st) (dout s (doutInput st)) (doutCB st) (doutLog st))")
  case False
  then have "r = None" "st' = st\<lparr>gcodeLW := gcodeLW st, lastPosition := lastPosition st,
       logToLine := logToLine st, shown := shown st, imgFileIndexSB := imgFileIndexSB st,
       doutLog := snd (digital_edge (doutLogic st) (dout s (doutInput st)) (doutCB st) (doutLog st))\<rparr>"
    using assms by (auto simp: dout_phase_def split: prod.splits)
  then show ?thesis by blast
next
  case True
  note l = digital_edge_fires [OF True]
  from log_shape [of lib st] obtain g lp ll sh ix
    where sh: "snd (log lib st) = st\<lparr>gcodeLW := g, lastPosition := lp, logToLine := ll,
                 shown := sh, imgFileIndexSB := ix\<rparr>"
    by blast
  have p: "log_then lib (\<lambda>st'. st'\<lparr>doutLog := True\<rparr>) st = (r, st')"
    using assms True l by (auto simp: dout_phase_def split: prod.splits)
  show ?thesis
  proof (cases r)
    case None
    have "st' = (snd (log lib st))\<lparr>doutLog := True\<rparr>"
      using log_then_None [OF p [unfolded None]] .
    then have f: "st' = st\<lparr>gcodeLW := g, lastPosition := lp, logToLine := ll,
                 shown := sh, imgFileIndexSB := ix, doutLog := True\<rparr>"
      unfolding sh .
    show ?thesis
    proof (intro exI conjI impI)
      show "st' = st\<lparr>gcodeLW := g, lastPosition := lp, logToLine := ll,
                 shown := sh, imgFileIndexSB := ix, doutLog := True\<rparr>"
        by (fact f)
      show "True = snd (digital_edge (doutLogic st) (dout s (doutInput st)) (doutCB st) (doutLog st))"
        by (rule l [THEN conjunct1, symmetric])
      show "True = doutLog st" if "r \<noteq> None"
        using that None by simp
    qed
  next
    case (Some e)
    have "st' = snd (log lib st)"
      using log_then_Some [OF p [unfolded Some]] .
    then have "st' = st\<lparr>gcodeLW := g, lastPosition := lp, logToLine := ll,
                 shown := sh, imgFileIndexSB := ix\<rparr>"
      unfolding sh .
    moreover have "st\<lparr>gcodeLW := g, lastPosition := lp, logToLine := ll,
                 shown := sh, imgFileIndexSB := ix\<rparr>
          = st\<lparr>gcodeLW := g, lastPosition := lp, logToLine := ll,
                 shown := sh, imgFileIndexSB := ix, doutLog := doutLog st\<rparr>"
      by simp
    ultimately have f: "st' = st\<lparr>gcodeLW := g, lastPosition := lp, logToLine := ll,
                 shown := sh, imgFileIndexSB := ix, doutLog := doutLog st\<rparr>"
      by (rule trans)
    show ?thesis
    proof (intro exI conjI impI)
      show "st' = st\<lparr>gcodeLW := g, lastPosition := lp, logToLine := ll,
                 shown := sh, imgFileIndexSB := ix, doutLog := doutLog st\<rparr>"
        by (fact f)
      show "doutLog st = snd (digital_edge (doutLogic st) (dout s (doutInput st)) (doutCB st)
                               (doutLog st))" if "r = None"
        using that Some by simp
      show "doutLog st = doutLog st" ..
    qed
  qed
qed

lemma analog_edge_fires:
  "fst (analog_edge l on off v e x)
     \<Longrightarrow> snd (analog_edge l on off v e x) = (True, ''background: white;'') \<and> \<not> x"
  by (auto simp: analog_edge_def split: if_splits)

lemma ain_phase_cases:
  assumes "ain_phase lib s st = (r, st')"
  shows "\<exists>g lp ll sh ix d y1 y2. st' = st\<lparr>gcodeLW := g, lastPosition := lp, logToLine := ll,
            shown := sh, imgFileIndexSB := ix, ainLog := d, ainOnValue_styleSheet := y1,
            ainOffValue_styleSheet := y2\<rparr>
          \<and> (r = None \<longrightarrow> d = fst (snd (analog_edge (ainOnLogic st) (ainOnValue st) (ainOffValue st)
                                             (ain s (ainInput st)) (ainCB st) (ainLog st))))
          \<and> (r \<noteq> None \<longrightarrow> d = ainLog st)"
proof (cases "fst (analog_edge (ainOnLogic st) (ainOnValue st) (ainOffValue st)
                     (ain s (ainInput st)) (ainCB st) (ainLog st))")
  case False
  then have "r = None" "st' = st\<lparr>gcodeLW := gcodeLW st, lastPosition := lastPosition st,
       logToLine := logToLine st, shown := shown st, imgFileIndexSB := imgFileIndexSB st,
       ainLog := fst (snd (analog_edge (ainOnLogic st) (ainOnValue st) (ainOffValue st)
                             (ain s (ainInput st)) (ainCB st) (ainLog st))),
       ainOnValue_styleSheet := snd (snd (analog_edge (ainOnLogic st) (ainOnValue st)
                             (ainOffValue st) (ain s (ainInput st)) (ainCB st) (ainLog st))),
       ainOffValue_styleSheet := snd (snd (analog_edge (ainOnLogic st) (ainOnValue st)
                             (ainOffValue st) (ain s (ainInput st)) (ainCB st) (ainLog st)))\<rparr>"
    using assms by (auto simp: ain_phase_def split: prod.splits)
  then show ?thesis by blast
next
  case True
  note l = analog_edge_fires [OF True]
  from log_shape [of lib st] obtain g lp ll sh ix
    where sh: "snd (log lib st) = st\<lparr>gcodeLW := g, lastPosition := lp, logToLine := ll,
                 shown := sh, imgFileIndexSB := ix\<rparr>"
    by blast
  have p: "log_then lib (\<lambda>st'. st'\<lparr>ainLog := True,
               ainOnValue_styleSheet := ''background: white;'',
               ainOffValue_styleSheet := ''background: white;''\<rparr>) st = (r, st')"
    using assms True l by (auto simp: ain_phase_def split: prod.splits)
  show ?thesis
  proof (cases r)
    case None
    have "st' = (snd (log lib st))\<lparr>ainLog := True,
               ainOnValue_styleSheet := ''background: white;'',
               ainOffValue_styleSheet := ''background: white;''\<rparr>"
      using log_then_None [OF p [unfolded None]] .
    then have f: "st' = st\<lparr>gcodeLW := g, lastPosition := lp, logToLine := ll,
                 shown := sh, imgFileIndexSB := ix, ainLog := True,
                 ainOnValue_styleSheet := ''background: white;'',
                 ainOffValue_styleSheet := ''background: white;''\<rparr>"
      unfolding sh .
    show ?thesis
    proof (intro exI conjI impI)
      show "st' = st\<lparr>gcodeLW := g, lastPosition := lp, logToLine := ll,
                 shown := sh, imgFileIndexSB := ix, ainLog := True,
                 ainOnValue_styleSheet := ''background: white;'',
                 ainOffValue_styleSheet := ''background: white;''\<rparr>"
        by (fact f)
      show "True = fst (snd (analog_edge (ainOnLogic st) (ainOnValue st) (ainOffValue st)
                               (ain s (ainInput st)) (ainCB st) (ainLog st)))"
        unfolding l [THEN conjunct1] by simp
      show "True = ainLog st" if "r \<noteq> None"
        using that None by simp
    qed
  next
    case (Some e)
    have "st' = snd (log lib st)"
      using log_then_Some [OF p [unfolded Some]] .
    then have "st' = st\<lparr>gcodeLW := g, lastPosition := lp, logToLine := ll,
                 shown := sh, imgFileIndexSB := ix\<rparr>"
      unfolding sh .
    moreover have "st\<lparr>gcodeLW := g, lastPosition := lp, logToLine := ll,
                 shown := sh, imgFileIndexSB := ix\<rparr>
          = st\<lparr>gcodeLW := g, lastPosition := lp, logToLine := ll,
                 shown := sh, imgFileIndexSB := ix, ainLog := ainLog st,
                 ainOnValue_styleSheet := ainOnValue_styleSheet st,
                 ainOffValue_styleSheet := ainOffValue_styleSheet st\<rparr>"
      by simp
    ultimately have f: "st' = st\<lparr>gcodeLW := g, lastPosition := lp, logToLine := ll,
                 shown := sh, imgFileIndexSB := ix, ainLog := ainLog st,
                 ainOnValue_styleSheet := ainOnValue_styleSheet st,
                 ainOffValue_styleSheet := ainOffValue_styleSheet st\<rparr>"
      by (rule trans)
    show ?thesis
    proof (intro exI conjI impI)
      show "st' = st\<lparr>gcodeLW := g, lastPosition := lp, logToLine := ll,
                 shown := sh, imgFileIndexSB := ix, ainLog := ainLog st,
                 ainOnValue_styleSheet := ainOnValue_styleSheet st,
                 ainOffValue_styleSheet := ainOffValue_styleSheet st\<rparr>"
        by (fact f)
      show "ainLog st = fst (snd (analog_edge (ainOnLogic st) (ainOnValue st) (ainOffValue st)
                               (ain s (ainInput st)) (ainCB st) (ainLog st)))" if "r = None"
        using that Some by simp
      show "ainLog st = ainLog st" ..
    qed
  qed
qed

lemma aout_phase_cases:
  assumes "aout_phase lib s st = (r, st')"
  shows "\<exists>g lp ll sh ix d y1 y2. st' = st\<lparr>gcodeLW := g, lastPosition := lp, logToLine := ll,
            shown := sh, imgFileIndexSB := ix, aoutLog := d, aoutOnValue_styleSheet := y1,
            aoutOffValue_styleSheet := y2\<rparr>
          \<and> (r = None \<longrightarrow> d = fst (snd (analog_edge (aoutOnLogic st) (aoutOnValue st) (aoutOffValue st)
                                             (aout s (aoutInput st)) (aoutCB st) (aoutLog st))))
          \<and> (r \<noteq> None \<longrightarrow> d = aoutLog st)"
proof (cases "fst (analog_edge (aoutOnLogic st) (aoutOnValue st) (aoutOffValue st)
                     (aout s (aoutInput st)) (aoutCB st) (aoutLog st))")
  case False
  then have "r = None" "st' = st\<lparr>gcodeLW := gcodeLW st, lastPosition := lastPosition st,
       logToLine := logToLine st, shown := shown st, imgFileIndexSB := imgFileIndexSB st,
       aoutLog := fst (snd (analog_edge (aoutOnLogic st) (aoutOnValue st) (aoutOffValue st)
                             (aout s (aoutInput st)) (aoutCB st) (aoutLog st))),
       aoutOnValue_styleSheet := snd (snd (analog_edge (aoutOnLogic st) (aoutOnValue st)
                             (aoutOffValue st) (aout s (aoutInput st)) (aoutCB st) (aoutLog st))),
       aoutOffValue_styleSheet := snd (snd (analog_edge (aoutOnLogic st) (aoutOnValue st)
                             (aoutOffValue st) (aout s (aoutInput st)) (aoutCB st) (aoutLog st)))\<rparr>"
    using assms by (auto simp: aout_phase_def split: prod.splits)
  then show ?thesis by blast
next
  case True
  note l = analog_edge_fires [OF True]
  from log_shape [of lib st] obtain g lp ll sh ix
    where sh: "snd (log lib st) = st\<lparr>gcodeLW := g, lastPosition := lp, logToLine := ll,
                 shown := sh, imgFileIndexSB := ix\<rparr>"
    by blast
  have p: "log_then lib (\<lambda>st'. st'\<lparr>aoutLog := True,
               aoutOnValue_styleSheet := ''background: white;'',
               aoutOffValue_styleSheet := ''background: white;''\<rparr>) st = (r, st')"
    using assms True l by (auto simp: aout_phase_def split: prod.splits)
  show ?thesis
  proof (cases r)
    case None
    have "st' = (snd (log lib st))\<lparr>aoutLog := True,
               aoutOnValue_styleSheet := ''background: white;'',
               aoutOffValue_styleSheet := ''background: white;''\<rparr>"
      using log_then_None [OF p [unfolded None]] .
    then have f: "st' = st\<lparr>gcodeLW := g, lastPosition := lp, logToLine := ll,
                 shown := sh, imgFileIndexSB := ix, aoutLog := True,
                 aoutOnValue_styleSheet := ''background: white;'',
                 aoutOffValue_styleSheet := ''background: white;''\<rparr>"
      unfolding sh .
    show ?thesis
    proof (intro exI conjI impI)
      show "st' = st\<lparr>gcodeLW := g, lastPosition := lp, logToLine := ll,
                 shown := sh, imgFileIndexSB := ix, aoutLog := True,
                 aoutOnValue_styleSheet := ''background: white;'',
                 aoutOffValue_styleSheet := ''background: white;''\<rparr>"
        by (fact f)
      show "True = fst (snd (analog_edge (aoutOnLogic st) (aoutOnValue st) (aoutOffValue st)
                               (aout s (aoutInput st)) (aoutCB st) (aoutLog st)))"
        unfolding l [THEN conjunct1] by simp
      show "True = aoutLog st" if "r \<noteq> None"
        using that None by simp
    qed
  next
    case (Some e)
    have "st' = snd (log lib st)"
      using log_then_Some [OF p [unfolded Some]] .
    then have "st' = st\<lparr>gcodeLW := g, lastPosition := lp, logToLine := ll,
                 shown := sh, imgFileIndexSB := ix\<rparr>"
      unfolding sh .
    moreover have "st\<lparr>gcodeLW := g, lastPosition := lp, logToLine := ll,
                 shown := sh, imgFileIndexSB := ix\<rparr>
          = st\<lparr>gcodeLW := g, lastPosition := lp, logToLine := ll,
                 shown := sh, imgFileIndexSB := ix, aoutLog := aoutLog st,
                 aoutOnValue_styleSheet := aoutOnValue_styleSheet st,
                 aoutOffValue_styleSheet := aoutOffValue_styleSheet st\<rparr>"
      by simp
    ultimately have f: "st' = st\<lparr>gcodeLW := g, lastPosition := lp, logToLine := ll,
                 shown := sh, imgFileIndexSB := ix, aoutLog := aoutLog st,
                 aoutOnValue_styleSheet := aoutOnValue_styleSheet st,
                 aoutOffValue_styleSheet := aoutOffValue_styleSheet st\<rparr>"
      by (rule trans)
    show ?thesis
    proof (intro exI conjI impI)
      show "st' = st\<lparr>gcodeLW := g, lastPosition := lp, logToLine := ll,
                 shown := sh, imgFileIndexSB := ix, aoutLog := aoutLog st,
                 aoutOnValue_styleSheet := aoutOnValue_styleSheet st,
                 aoutOffValue_styleSheet := aoutOffValue_styleSheet st\<rparr>"
        by (fact f)
      show "aoutLog st = fst (snd (analog_edge (aoutOnLogic st) (aoutOnValue st) (aoutOffValue st)
                               (aout s (aoutInput st)) (aoutCB st) (aoutLog st)))" if "r = None"
        using that Some by simp
      show "aoutLog st = aoutLog st" ..
    qed
  qed
qed

lemma label_phase_shape:
  "label_phase lib s st = (r, a) \<Longrightarrow> \<exists>lbs. a = st\<lparr>position_lbs := lbs\<rparr>"
  by (auto simp: label_phase_def split: prod.splits)

lemma update_None:
  assumes "fst (update lib s st) = None"
  shows "\<exists>a b c d. label_phase lib s st = (None, a) \<and> din_phase lib s a = (None, b)
           \<and> dout_phase lib s b = (None, c) \<and> ain_phase lib s c = (None, d)
           \<and> aout_phase lib s d = (None, snd (update lib s st))"
  using assms
  by (auto simp: update_def and_then_def split: prod.splits option.splits) (metis prod.collapse)

text \<open>
  A tick that ends without an exception: each channel calls \<open>log\<close> as its block decides
  from the window at the start of the tick, its latch is the one that the block assigns,
  and the settings of the channels are as before.
\<close>

lemma update_channels:
  assumes "fst (update lib s st) = None"
  shows "din_fires lib s st
           = fst (digital_edge (dinLogic st) (din s (dinInput st)) (dinCB st) (dinLog st))"
    and "dinLog (snd (update lib s st))
           = snd (digital_edge (dinLogic st) (din s (dinInput st)) (dinCB st) (dinLog st))"
    and "dout_fires lib s st
           = fst (digital_edge (doutLogic st) (dout s (doutInput st)) (doutCB st) (doutLog st))"
    and "doutLog (snd (update lib s st))
           = snd (digital_edge (doutLogic st) (dout s (doutInput st)) (doutCB st) (doutLog st))"
    and "ain_fires lib s st
           = fst (analog_edge (ainOnLogic st) (ainOnValue st) (ainOffValue st)
                    (ain s (ainInput st)) (ainCB st) (ainLog st))"
    and "ainLog (snd (update lib s st))
           = fst (snd (analog_edge (ainOnLogic st) (ainOnValue st) (ainOffValue st)
                         (ain s (ainInput st)) (ainCB st) (ainLog st)))"
    and "aout_fires lib s st
           = fst (analog_edge (aoutOnLogic st) (aoutOnValue st) (aoutOffValue st)
                    (aout s (aoutInput st)) (aoutCB st) (aoutLog st))"
    and "aoutLog (snd (update lib s st))
           = fst (snd (analog_edge (aoutOnLogic st) (aoutOnValue st) (aoutOffValue st)
                         (aout s (aoutInput st)) (aoutCB st) (aoutLog st)))"
    and "dinLogic (snd (update lib s st)) = dinLogic st"
    and "dinCB (snd (update lib s st)) = dinCB st"
    and "dinInput (snd (update lib s st)) = dinInput st"
    and "doutLogic (snd (update lib s st)) = doutLogic st"
    and "doutCB (snd (update lib s st)) = doutCB st"
    and "doutInput (snd (update lib s st)) = doutInput st"
    and "ainOnLogic (snd (update lib s st)) = ainOnLogic st"
    and "ainOnValue (snd (update lib s st)) = ainOnValue st"
    and "ainOffValue (snd (update lib s st)) = ainOffValue st"
    and "ainCB (snd (update lib s st)) = ainCB st"
    and "ainInput (snd (update lib s st)) = ainInput st"
    and "aoutOnLogic (snd (update lib s st)) = aoutOnLogic st"
    and "aoutOnValue (snd (update lib s st)) = aoutOnValue st"
    and "aoutOffValue (snd (update lib s st)) = aoutOffValue st"
    and "aoutCB (snd (update lib s st)) = aoutCB st"
    and "aoutInput (snd (update lib s st)) = aoutInput st"
proof -
  from update_None [OF assms] obtain a b c d
    where pa: "label_phase lib s st = (None, a)" and pb: "din_phase lib s a = (None, b)"
      and pc: "dout_phase lib s b = (None, c)" and pd: "ain_phase lib s c = (None, d)"
      and pe: "aout_phase lib s d = (None, snd (update lib s st))"
    by blast
  from label_phase_shape [OF pa] obtain lbs where a: "a = st\<lparr>position_lbs := lbs\<rparr>"
    by blast
  from din_phase_cases [OF pb] obtain g1 lp1 ll1 sh1 ix1 l1
    where b: "b = a\<lparr>gcodeLW := g1, lastPosition := lp1, logToLine := ll1, shown := sh1,
                    imgFileIndexSB := ix1, dinLog := l1\<rparr>"
      and l1: "l1 = snd (digital_edge (dinLogic a) (din s (dinInput a)) (dinCB a) (dinLog a))"
    by blast
  from dout_phase_cases [OF pc] obtain g2 lp2 ll2 sh2 ix2 l2
    where c: "c = b\<lparr>gcodeLW := g2, lastPosition := lp2, logToLine := ll2, shown := sh2,
                    imgFileIndexSB := ix2, doutLog := l2\<rparr>"
      and l2: "l2 = snd (digital_edge (doutLogic b) (dout s (doutInput b)) (doutCB b) (doutLog b))"
    by blast
  from ain_phase_cases [OF pd] obtain g3 lp3 ll3 sh3 ix3 l3 y3 z3
    where d: "d = c\<lparr>gcodeLW := g3, lastPosition := lp3, logToLine := ll3, shown := sh3,
                    imgFileIndexSB := ix3, ainLog := l3, ainOnValue_styleSheet := y3,
                    ainOffValue_styleSheet := z3\<rparr>"
      and l3: "l3 = fst (snd (analog_edge (ainOnLogic c) (ainOnValue c) (ainOffValue c)
                                 (ain s (ainInput c)) (ainCB c) (ainLog c)))"
    by blast
  from aout_phase_cases [OF pe] obtain g4 lp4 ll4 sh4 ix4 l4 y4 z4
    where e: "snd (update lib s st)
                = d\<lparr>gcodeLW := g4, lastPosition := lp4, logToLine := ll4, shown := sh4,
                    imgFileIndexSB := ix4, aoutLog := l4, aoutOnValue_styleSheet := y4,
                    aoutOffValue_styleSheet := z4\<rparr>"
      and l4: "l4 = fst (snd (analog_edge (aoutOnLogic d) (aoutOnValue d) (aoutOffValue d)
                                 (aout s (aoutInput d)) (aoutCB d) (aoutLog d)))"
    by blast
  show "din_fires lib s st
           = fst (digital_edge (dinLogic st) (din s (dinInput st)) (dinCB st) (dinLog st))"
    by (simp add: din_fires_def pa, simp add: a)
  show "dout_fires lib s st
           = fst (digital_edge (doutLogic st) (dout s (doutInput st)) (doutCB st) (doutLog st))"
    by (simp add: dout_fires_def and_then_def pa pb, simp add: b a)
  show "ain_fires lib s st
           = fst (analog_edge (ainOnLogic st) (ainOnValue st) (ainOffValue st)
                    (ain s (ainInput st)) (ainCB st) (ainLog st))"
    by (simp add: ain_fires_def and_then_def pa pb pc, simp add: c b a)
  show "aout_fires lib s st
           = fst (analog_edge (aoutOnLogic st) (aoutOnValue st) (aoutOffValue st)
                    (aout s (aoutInput st)) (aoutCB st) (aoutLog st))"
    by (simp add: aout_fires_def and_then_def pa pb pc pd, simp add: d c b a)
  show "dinLog (snd (update lib s st))
           = snd (digital_edge (dinLogic st) (din s (dinInput st)) (dinCB st) (dinLog st))"
    unfolding e by (simp add: d c b l1 a)
  show "doutLog (snd (update lib s st))
           = snd (digital_edge (doutLogic st) (dout s (doutInput st)) (doutCB st) (doutLog st))"
    unfolding e by (simp add: d c l2 b a)
  show "ainLog (snd (update lib s st))
           = fst (snd (analog_edge (ainOnLogic st) (ainOnValue st) (ainOffValue st)
                         (ain s (ainInput st)) (ainCB st) (ainLog st)))"
    unfolding e by (simp add: d l3 c b a)
  show "aoutLog (snd (update lib s st))
           = fst (snd (analog_edge (aoutOnLogic st) (aoutOnValue st) (aoutOffValue st)
                         (aout s (aoutInput st)) (aoutCB st) (aoutLog st)))"
    unfolding e by (simp add: l4 d c b a)
  show "dinLogic (snd (update lib s st)) = dinLogic st" unfolding e by (simp add: d c b a)
  show "dinCB (snd (update lib s st)) = dinCB st" unfolding e by (simp add: d c b a)
  show "dinInput (snd (update lib s st)) = dinInput st" unfolding e by (simp add: d c b a)
  show "doutLogic (snd (update lib s st)) = doutLogic st" unfolding e by (simp add: d c b a)
  show "doutCB (snd (update lib s st)) = doutCB st" unfolding e by (simp add: d c b a)
  show "doutInput (snd (update lib s st)) = doutInput st" unfolding e by (simp add: d c b a)
  show "ainOnLogic (snd (update lib s st)) = ainOnLogic st" unfolding e by (simp add: d c b a)
  show "ainOnValue (snd (update lib s st)) = ainOnValue st" unfolding e by (simp add: d c b a)
  show "ainOffValue (snd (update lib s st)) = ainOffValue st" unfolding e by (simp add: d c b a)
  show "ainCB (snd (update lib s st)) = ainCB st" unfolding e by (simp add: d c b a)
  show "ainInput (snd (update lib s st)) = ainInput st" unfolding e by (simp add: d c b a)
  show "aoutOnLogic (snd (update lib s st)) = aoutOnLogic st" unfolding e by (simp add: d c b a)
  show "aoutOnValue (snd (update lib s st)) = aoutOnValue st" unfolding e by (simp add: d c b a)
  show "aoutOffValue (snd (update lib s st)) = aoutOffValue st" unfolding e by (simp add: d c b a)
  show "aoutCB (snd (update lib s st)) = aoutCB st" unfolding e by (simp add: d c b a)
  show "aoutInput (snd (update lib s st)) = aoutInput st" unfolding e by (simp add: d c b a)
qed




lemma ain_run:
  assumes "returns lib ss st"
  shows "map2 (ain_fires lib) ss (ticks lib ss st)
           = map fst (analog_run (ainOnLogic st) (ainOnValue st) (ainOffValue st) (ainCB st)
                        (ainLog st) (map (\<lambda>s. ain s (ainInput st)) ss))"
  using assms
proof (induction ss arbitrary: st)
  case Nil
  then show ?case by simp
next
  case (Cons s ss)
  from Cons.prems have r: "fst (update lib s st) = None"
    and rs: "returns lib ss (snd (update lib s st))"
    by simp_all
  note u = update_channels [OF r]
  note ih = Cons.IH [OF rs]
  show ?case
    by (simp add: ih u split: prod.splits)
qed

lemma aout_run:
  assumes "returns lib ss st"
  shows "map2 (aout_fires lib) ss (ticks lib ss st)
           = map fst (analog_run (aoutOnLogic st) (aoutOnValue st) (aoutOffValue st) (aoutCB st)
                        (aoutLog st) (map (\<lambda>s. aout s (aoutInput st)) ss))"
  using assms
proof (induction ss arbitrary: st)
  case Nil
  then show ?case by simp
next
  case (Cons s ss)
  from Cons.prems have r: "fst (update lib s st) = None"
    and rs: "returns lib ss (snd (update lib s st))"
    by simp_all
  note u = update_channels [OF r]
  note ih = Cons.IH [OF rs]
  show ?case
    by (simp add: ih u split: prod.splits)
qed

lemma labels_123:
  "set_labels declib 3 [1, 2, 3, 0, 0, 0, 0, 0, 0] [0, 1, 2]
     [Some ''1.000'', Some ''2.000'', Some ''3.000'', None, None, None, None, None, None]
   = (None, [Some ''1.000'', Some ''2.000'', Some ''3.000'', None, None, None, None, None, None])"
  by (simp add: py_get_def format_123)







lemma run_window_fields:
  "position_lbs (run_window g l dl ol al bl) = [Some ''1.000'', Some ''2.000'', Some ''3.000'',
                                                   None, None, None, None, None, None]"
  "axes (run_window g l dl ol al bl) = [0, 1, 2]" "precisionSB (run_window g l dl ol al bl) = 3"
  "display (run_window g l dl ol al bl) (sample d q a b) = [1, 2, 3, 0, 0, 0, 0, 0, 0]"
  "checked_axes (run_window g l dl ol al bl) = [0, 1, 2]"
  "moveTypeEnableCB (run_window g l dl ol al bl)"
  "moveTypeGB (run_window g l dl ol al bl) = Some g0RB"
  "logCommentLE (run_window g l dl ol al bl) = []"
  "screen_shot (run_window g l dl ol al bl) = run_window g l dl ol al bl"
  "logComment (run_window g l dl ol al bl) = []"
  "logToLine (run_window g l dl ol al bl) = None"
  "gcodeLW (run_window g l dl ol al bl) = g"
  by (simp_all add: run_window_def display_def sample_def stat0_def screen_shot_def
      logComment_def checked_axes_def upt9 move_window_def window0_def check_feed_arc_radius_def)

lemma run_window_channels:
  "dinLogic (run_window g l dl ol al bl) = ''true''" "dinCB (run_window g l dl ol al bl)"
  "dinInput (run_window g l dl ol al bl) = 0" "dinLog (run_window g l dl ol al bl) = dl"
  "doutLogic (run_window g l dl ol al bl) = ''true''" "doutCB (run_window g l dl ol al bl)"
  "doutInput (run_window g l dl ol al bl) = 0" "doutLog (run_window g l dl ol al bl) = ol"
  "ainOnLogic (run_window g l dl ol al bl) = ''>''" "ainOnValue (run_window g l dl ol al bl) = 5"
  "ainOffValue (run_window g l dl ol al bl) = 2" "ainCB (run_window g l dl ol al bl)"
  "ainInput (run_window g l dl ol al bl) = 0" "ainLog (run_window g l dl ol al bl) = al"
  "aoutOnLogic (run_window g l dl ol al bl) = ''>''" "aoutOnValue (run_window g l dl ol al bl) = 5"
  "aoutOffValue (run_window g l dl ol al bl) = 2" "aoutCB (run_window g l dl ol al bl)"
  "aoutInput (run_window g l dl ol al bl) = 0" "aoutLog (run_window g l dl ol al bl) = bl"
  by (simp_all add: run_window_def move_window_def window0_def check_feed_arc_radius_def)

lemma sample_signals:
  "din (sample d q a b) i = d" "dout (sample d q a b) i = q"
  "ain (sample d q a b) i = a" "aout (sample d q a b) i = b"
  by (simp_all add: sample_def)

lemma run_window_latches:
  "(run_window g l dl ol al bl)\<lparr>dinLog := x\<rparr> = run_window g l x ol al bl"
  "(run_window g l dl ol al bl)\<lparr>doutLog := x\<rparr> = run_window g l dl x al bl"
  "(run_window g l dl ol al bl)\<lparr>ainLog := x, ainOnValue_styleSheet := ''background: white;'',
       ainOffValue_styleSheet := ''background: white;''\<rparr> = run_window g l dl ol x bl"
  "(run_window g l dl ol al bl)\<lparr>aoutLog := x, aoutOnValue_styleSheet := ''background: white;'',
       aoutOffValue_styleSheet := ''background: white;''\<rparr> = run_window g l dl ol al x"
  by (simp_all add: run_window_def)

lemma label_phase_run:
  "label_phase declib (sample d q a b) (run_window g l dl ol al bl)
     = (None, run_window g l dl ol al bl)"
  unfolding label_phase_def run_window_fields labels_123
  by (simp add: run_window_fields(1) [symmetric])

lemma compose_run:
  "compose declib (run_window g l dl ol al bl) []
     = ([], Ok (''G0 X1.000 Y2.000 Z3.000 '', [1, 2, 3]))"
  unfolding compose_def run_window_fields(1,5) read_axes_move Let_def
  by (simp add: run_window_fields move_tokens_def
      cong del: prod.case_cong_weak result.case_cong_weak)

lemma log_insert_run:
  "log_insert (run_window g l dl ol al bl) e cp = run_window (g @ [e]) cp dl ol al bl"
  by (simp add: log_insert_def run_window_def)

lemma log_run:
  "log declib (run_window g l dl ol al bl)
     = (Logged, run_window (g @ [''G0 X1.000 Y2.000 Z3.000 '']) [1, 2, 3] dl ol al bl)"
  by (simp add: log_def run_window_fields compose_run log_insert_run)

lemma din_phase_run:
  "din_phase declib (sample d q a b) (run_window g l dl ol al bl)
     = (None, if d \<and> \<not> dl
              then run_window (g @ [''G0 X1.000 Y2.000 Z3.000 '']) [1, 2, 3] True ol al bl
              else run_window g l d ol al bl)"
  by (cases d; cases dl)
    (simp_all add: din_phase_def digital_edge_def run_window_channels sample_signals
      log_then_def log_run run_window_latches)

lemma dout_phase_run:
  "dout_phase declib (sample d q a b) (run_window g l dl ol al bl)
     = (None, if q \<and> \<not> ol
              then run_window (g @ [''G0 X1.000 Y2.000 Z3.000 '']) [1, 2, 3] dl True al bl
              else run_window g l dl q al bl)"
  by (cases q; cases ol)
    (simp_all add: dout_phase_def digital_edge_def run_window_channels sample_signals
      log_then_def log_run run_window_latches)

lemma ain_phase_run:
  "ain_phase declib (sample d q a b) (run_window g l dl ol al bl)
     = (None, if 5 < a \<and> \<not> al
              then run_window (g @ [''G0 X1.000 Y2.000 Z3.000 '']) [1, 2, 3] dl ol True bl
              else run_window g l dl ol (al \<and> \<not> a < 2) bl)"
  by (cases al; cases "5 < a"; cases "a < 2")
    (simp_all add: ain_phase_def analog_edge_def run_window_channels sample_signals
      log_then_def log_run run_window_latches)

lemma aout_phase_run:
  "aout_phase declib (sample d q a b) (run_window g l dl ol al bl)
     = (None, if 5 < b \<and> \<not> bl
              then run_window (g @ [''G0 X1.000 Y2.000 Z3.000 '']) [1, 2, 3] dl ol al True
              else run_window g l dl ol al (bl \<and> \<not> b < 2))"
  by (cases bl; cases "5 < b"; cases "b < 2")
    (simp_all add: aout_phase_def analog_edge_def run_window_channels sample_signals
      log_then_def log_run run_window_latches)

lemmas run_phases = update_def and_then_def label_phase_run din_phase_run dout_phase_run
  ain_phase_run aout_phase_run


lemma returns_analog_run:
  "returns declib [sample False False 1 1, sample False False 6 6, sample False False 6 6,
                   sample False False 1 1] (run_window [] [] False False False False)"
  by (simp add: run_phases)

lemma update_analog_run:
  "fst (update declib (sample False False 6 6) (run_window [] [] False False False False)) = None"
  by (simp add: run_phases)



text \<open>
  C5, amended. For every analog channel whose thresholds are in the order of its on
  comparator: the block of the channel calls \<open>log\<close> exactly when the channel is enabled, the
  latch is clear and the value satisfies the on comparator against the on threshold, and
  the latch it assigns is set exactly then; a set latch clears exactly when the value
  satisfies the opposite comparator against the off threshold. In every tick of \<open>update\<close>
  that ends without an exception, the analog input and the analog output call \<open>log\<close> as
  their blocks decide from the window at the start of the tick, and their latches after
  the tick are those that the blocks assign. With the thresholds 5 and 2, '>', the
  channel enabled and the latch clear, in a run on the values 1, 6, 6, 1 of which no tick
  ends in an exception, the channel calls \<open>log\<close> once, at the first 6.
\<close>

theorem analog_edge_valid:
  assumes "onLogic = ''>'' \<and> onValue > offValue \<or> onLogic = ''<'' \<and> onValue < offValue"
  shows "analog_edge onLogic onValue offValue v enabled latch =
           (let on = (if onLogic = ''>'' then v > onValue else v < onValue);
                off = (if onLogic = ''>'' then v < offValue else v > offValue)
            in (enabled \<and> \<not> latch \<and> on,
                if latch then \<not> off else enabled \<and> on,
                ''background: white;''))
         \<and> (fst (update lib s st) = None
            \<longrightarrow> ain_fires lib s st
                  = fst (analog_edge (ainOnLogic st) (ainOnValue st) (ainOffValue st)
                           (ain s (ainInput st)) (ainCB st) (ainLog st))
                \<and> ainLog (snd (update lib s st))
                  = fst (snd (analog_edge (ainOnLogic st) (ainOnValue st) (ainOffValue st)
                                (ain s (ainInput st)) (ainCB st) (ainLog st)))
                \<and> aout_fires lib s st
                  = fst (analog_edge (aoutOnLogic st) (aoutOnValue st) (aoutOffValue st)
                           (aout s (aoutInput st)) (aoutCB st) (aoutLog st))
                \<and> aoutLog (snd (update lib s st))
                  = fst (snd (analog_edge (aoutOnLogic st) (aoutOnValue st) (aoutOffValue st)
                                (aout s (aoutInput st)) (aoutCB st) (aoutLog st))))
         \<and> (returns lib ss st \<and> ainOnLogic st = ''>'' \<and> ainOnValue st = 5 \<and> ainOffValue st = 2
              \<and> ainCB st \<and> \<not> ainLog st \<and> map (\<lambda>s. ain s (ainInput st)) ss = [1, 6, 6, 1]
            \<longrightarrow> map2 (ain_fires lib) ss (ticks lib ss st) = [False, True, False, False])
         \<and> (returns lib ss st \<and> aoutOnLogic st = ''>'' \<and> aoutOnValue st = 5 \<and> aoutOffValue st = 2
              \<and> aoutCB st \<and> \<not> aoutLog st \<and> map (\<lambda>s. aout s (aoutInput st)) ss = [1, 6, 6, 1]
            \<longrightarrow> map2 (aout_fires lib) ss (ticks lib ss st) = [False, True, False, False])"
proof (intro conjI impI)
  show "analog_edge onLogic onValue offValue v enabled latch =
           (let on = (if onLogic = ''>'' then v > onValue else v < onValue);
                off = (if onLogic = ''>'' then v < offValue else v > offValue)
            in (enabled \<and> \<not> latch \<and> on,
                if latch then \<not> off else enabled \<and> on,
                ''background: white;''))"
    using assms by (auto simp: analog_edge_def Let_def)
next
  assume a: "returns lib ss st \<and> ainOnLogic st = ''>'' \<and> ainOnValue st = 5 \<and> ainOffValue st = 2
              \<and> ainCB st \<and> \<not> ainLog st \<and> map (\<lambda>s. ain s (ainInput st)) ss = [1, 6, 6, 1]"
  then have "map2 (ain_fires lib) ss (ticks lib ss st)
               = map fst (analog_run ''>'' 5 2 True False [1, 6, 6, 1])"
    using ain_run [of lib ss st] by simp
  then show "map2 (ain_fires lib) ss (ticks lib ss st) = [False, True, False, False]"
    by (simp add: analog_edge_def)
next
  assume a: "returns lib ss st \<and> aoutOnLogic st = ''>'' \<and> aoutOnValue st = 5 \<and> aoutOffValue st = 2
              \<and> aoutCB st \<and> \<not> aoutLog st \<and> map (\<lambda>s. aout s (aoutInput st)) ss = [1, 6, 6, 1]"
  then have "map2 (aout_fires lib) ss (ticks lib ss st)
               = map fst (analog_run ''>'' 5 2 True False [1, 6, 6, 1])"
    using aout_run [of lib ss st] by simp
  then show "map2 (aout_fires lib) ss (ticks lib ss st) = [False, True, False, False]"
    by (simp add: analog_edge_def)
qed (simp_all add: update_channels)

theorem analog_edge_valid_witness:
  "(''>'' = ''>'' \<and> (5::real) > 2 \<or> ''>'' = ''<'' \<and> (5::real) < 2)
   \<and> analog_edge ''>'' 5 2 6 True False = (True, True, ''background: white;'')
   \<and> analog_edge ''>'' 5 2 1 True True = (False, False, ''background: white;'')
   \<and> fst (update declib (sample False False 6 6) (run_window [] [] False False False False)) = None
   \<and> ain_fires declib (sample False False 6 6) (run_window [] [] False False False False)
   \<and> ainLog (snd (update declib (sample False False 6 6)
                     (run_window [] [] False False False False)))
   \<and> aout_fires declib (sample False False 6 6) (run_window [] [] False False False False)
   \<and> aoutLog (snd (update declib (sample False False 6 6)
                      (run_window [] [] False False False False)))
   \<and> returns declib [sample False False 1 1, sample False False 6 6, sample False False 6 6,
                     sample False False 1 1] (run_window [] [] False False False False)
   \<and> map (\<lambda>s. ain s (ainInput (run_window [] [] False False False False)))
         [sample False False 1 1, sample False False 6 6, sample False False 6 6,
          sample False False 1 1] = [1, 6, 6, 1]
   \<and> map (\<lambda>s. aout s (aoutInput (run_window [] [] False False False False)))
         [sample False False 1 1, sample False False 6 6, sample False False 6 6,
          sample False False 1 1] = [1, 6, 6, 1]
   \<and> map2 (ain_fires declib)
         [sample False False 1 1, sample False False 6 6, sample False False 6 6,
          sample False False 1 1]
         (ticks declib [sample False False 1 1, sample False False 6 6, sample False False 6 6,
                        sample False False 1 1] (run_window [] [] False False False False))
       = [False, True, False, False]
   \<and> map2 (aout_fires declib)
         [sample False False 1 1, sample False False 6 6, sample False False 6 6,
          sample False False 1 1]
         (ticks declib [sample False False 1 1, sample False False 6 6, sample False False 6 6,
                        sample False False 1 1] (run_window [] [] False False False False))
       = [False, True, False, False]"
proof -
  have h: "''>'' = ''>'' \<and> (5::real) > 2 \<or> ''>'' = ''<'' \<and> (5::real) < 2"
    by simp
  note e1 = analog_edge_valid [OF h, of 6 True False, THEN conjunct1]
  note e2 = analog_edge_valid [OF h, of 1 True True, THEN conjunct1]
  note t = analog_edge_valid [OF h, where lib = declib and s = "sample False False 6 6"
      and st = "run_window [] [] False False False False", THEN conjunct2, THEN conjunct1,
      rule_format, OF update_analog_run]
  note x = analog_edge_valid [OF h, where lib = declib
      and ss = "[sample False False 1 1, sample False False 6 6, sample False False 6 6,
                 sample False False 1 1]"
      and st = "run_window [] [] False False False False", THEN conjunct2, THEN conjunct2]
  have v: "map (\<lambda>s. ain s (ainInput (run_window [] [] False False False False)))
             [sample False False 1 1, sample False False 6 6, sample False False 6 6,
              sample False False 1 1] = [1, 6, 6, 1]"
    "map (\<lambda>s. aout s (aoutInput (run_window [] [] False False False False)))
             [sample False False 1 1, sample False False 6 6, sample False False 6 6,
              sample False False 1 1] = [1, 6, 6, 1]"
    by (simp_all add: sample_signals)
  have k: "ainOnLogic (run_window [] [] False False False False) = ''>''"
    "ainOnValue (run_window [] [] False False False False) = 5"
    "ainOffValue (run_window [] [] False False False False) = 2"
    "ainCB (run_window [] [] False False False False)"
    "\<not> ainLog (run_window [] [] False False False False)"
    "aoutOnLogic (run_window [] [] False False False False) = ''>''"
    "aoutOnValue (run_window [] [] False False False False) = 5"
    "aoutOffValue (run_window [] [] False False False False) = 2"
    "aoutCB (run_window [] [] False False False False)"
    "\<not> aoutLog (run_window [] [] False False False False)"
    by (simp_all add: run_window_channels)
  have a1: "analog_edge ''>'' 5 2 6 True False = (True, True, ''background: white;'')"
    unfolding e1 by (simp add: Let_def)
  have a2: "analog_edge ''>'' 5 2 1 True True = (False, False, ''background: white;'')"
    unfolding e2 by (simp add: Let_def)
  have f: "ain_fires declib (sample False False 6 6) (run_window [] [] False False False False)"
    "ainLog (snd (update declib (sample False False 6 6)
                     (run_window [] [] False False False False)))"
    "aout_fires declib (sample False False 6 6) (run_window [] [] False False False False)"
    "aoutLog (snd (update declib (sample False False 6 6)
                      (run_window [] [] False False False False)))"
    using t by (simp_all add: run_window_channels sample_signals a1)
  from x returns_analog_run k v
  have y: "map2 (ain_fires declib)
         [sample False False 1 1, sample False False 6 6, sample False False 6 6,
          sample False False 1 1]
         (ticks declib [sample False False 1 1, sample False False 6 6, sample False False 6 6,
                        sample False False 1 1] (run_window [] [] False False False False))
       = [False, True, False, False]"
    "map2 (aout_fires declib)
         [sample False False 1 1, sample False False 6 6, sample False False 6 6,
          sample False False 1 1]
         (ticks declib [sample False False 1 1, sample False False 6 6, sample False False 6 6,
                        sample False False 1 1] (run_window [] [] False False False False))
       = [False, True, False, False]"
    by blast+
  from h a1 a2 update_analog_run f returns_analog_run v y show ?thesis by blast
qed

end
